theory Spec2Isabelle
  imports Main "HOL-Library.AList"
begin

section \<open>JavaScript values\<close>

text \<open>
  The client in \<^verbatim>\<open>src/lib/shipi18n.js\<close> and the route handler in
  \<^verbatim>\<open>src/app/api/translate/route.js\<close> are dynamically typed: configuration,
  arguments, headers and response bodies are plain JavaScript values. They are embedded
  as the datatype \<open>jsval\<close>: the values of JSON, and \<^verbatim>\<open>undefined\<close>. An object is the
  list of its own properties in enumeration order (keys are unique in a real object:
  integer-like keys first, ascending, then the others as created). Numbers are restricted
  to integers, which is all that the code inspects (truthiness, the \<^verbatim>\<open>length\<close> of a
  sequence, an HTTP status). Members that a value inherits through its prototype chain
  are no part of \<open>jsval\<close>; the one place where the code can reach them, the computed
  read \<^verbatim>\<open>result[lang]\<close> of \<open>translateLocaleFile\<close>, is modelled with \<open>get_member\<close> below.
\<close>

datatype jsval =
    JUndefined
  | JNull
  | JBool bool
  | JNum int
  | JStr string
  | JArr "jsval list"
  | JObj "(string \<times> jsval) list"

text \<open>ToBoolean: what \<^verbatim>\<open>if (v)\<close>, \<^verbatim>\<open>!v\<close> and \<^verbatim>\<open>a || b\<close> test.\<close>

fun truthy :: "jsval \<Rightarrow> bool" where
  "truthy JUndefined = False"
| "truthy JNull = False"
| "truthy (JBool b) = b"
| "truthy (JNum n) = (n \<noteq> 0)"
| "truthy (JStr s) = (s \<noteq> [])"
| "truthy (JArr xs) = True"
| "truthy (JObj kvs) = True"

definition nullish :: "jsval \<Rightarrow> bool" where
  "nullish v = (v = JUndefined \<or> v = JNull)"

text \<open>\<^verbatim>\<open>a || b\<close>\<close>

definition js_or :: "jsval \<Rightarrow> jsval \<Rightarrow> jsval" where
  "js_or a b = (if truthy a then a else b)"

text \<open>A destructuring default \<^verbatim>\<open>{ x = d }\<close> applies exactly when the property is undefined.\<close>

definition default_param :: "jsval \<Rightarrow> jsval \<Rightarrow> jsval" where
  "default_param v d = (if v = JUndefined then d else v)"

subsection \<open>Conversion to strings\<close>

fun show_nat :: "nat \<Rightarrow> string" where
  "show_nat n =
     (if n < 10 then [''0123456789'' ! n]
      else show_nat (n div 10) @ [''0123456789'' ! (n mod 10)])"

declare show_nat.simps [simp del]

definition show_int :: "int \<Rightarrow> string" where
  "show_int i = (if i < 0 then CHR ''-'' # show_nat (nat (- i)) else show_nat (nat i))"

fun join :: "string \<Rightarrow> string list \<Rightarrow> string" where
  "join sep [] = []"
| "join sep [x] = x"
| "join sep (x # y # ys) = x @ sep @ join sep (y # ys)"

text \<open>
  ToString, as applied by a template literal \<^verbatim>\<open>`${v}`\<close>, by \<^verbatim>\<open>new Error(v)\<close> and
  by a computed property key \<^verbatim>\<open>o[v]\<close>. It is what the engine prints for a string, a
  boolean, \<^verbatim>\<open>null\<close>, \<^verbatim>\<open>undefined\<close>, an integer of magnitude below \<open>10\<^sup>2\<^sup>1\<close> (from
  there on the engine writes an exponent), an array of such values, and an object with
  no own \<^verbatim>\<open>toString\<close> member (with one, the conversion throws). The code applies
  it to the configured \<^verbatim>\<open>apiUrl\<close>, to the \<^verbatim>\<open>message\<close> of an error body and to
  the requested language codes; the statements about the last two are made for strings.
\<close>

fun ToString :: "jsval \<Rightarrow> string" where
  "ToString JUndefined = ''undefined''"
| "ToString JNull = ''null''"
| "ToString (JBool b) = (if b then ''true'' else ''false'')"
| "ToString (JNum n) = show_int n"
| "ToString (JStr s) = s"
| "ToString (JArr xs) =
     join '','' (map (\<lambda>x. if x = JUndefined \<or> x = JNull then [] else ToString x) xs)"
| "ToString (JObj kvs) = ''[object Object]''"

subsection \<open>Property access and object construction\<close>

text \<open>
  \<open>get_prop v k\<close> is \<^verbatim>\<open>v.k\<close> for a value that is neither null nor undefined
  (callers test \<open>nullish\<close> first where the source can meet such a value, and raise the
  TypeError the engine raises) and a key that no prototype defines: it reads own
  properties. That is every key the code writes out: \<^verbatim>\<open>apiKey\<close>, \<^verbatim>\<open>apiUrl\<close>,
  \<^verbatim>\<open>headers\<close>, \<^verbatim>\<open>message\<close>, \<^verbatim>\<open>length\<close> (an own property of arrays and strings),
  and the names of the arguments.
\<close>

fun get_prop :: "jsval \<Rightarrow> string \<Rightarrow> jsval" where
  "get_prop (JObj kvs) k = (case map_of kvs k of Some v \<Rightarrow> v | None \<Rightarrow> JUndefined)"
| "get_prop (JArr xs) k =
     (if k = ''length'' then JNum (int (length xs))
      else case find (\<lambda>i. show_nat i = k) [0..<length xs] of
             Some i \<Rightarrow> xs ! i
           | None \<Rightarrow> JUndefined)"
| "get_prop (JStr s) k =
     (if k = ''length'' then JNum (int (length s))
      else case find (\<lambda>i. show_nat i = k) [0..<length s] of
             Some i \<Rightarrow> JStr [s ! i]
           | None \<Rightarrow> JUndefined)"
| "get_prop v k = JUndefined"

text \<open>\<^verbatim>\<open>v?.length\<close>\<close>

definition opt_length :: "jsval \<Rightarrow> jsval" where
  "opt_length v = (if nullish v then JUndefined else get_prop v ''length'')"

text \<open>The own enumerable properties that an object spread \<^verbatim>\<open>{...v}\<close> copies.\<close>

fun own_props :: "jsval \<Rightarrow> (string \<times> jsval) list" where
  "own_props (JObj kvs) = kvs"
| "own_props (JArr xs) = zip (map show_nat [0..<length xs]) xs"
| "own_props (JStr s) = zip (map show_nat [0..<length s]) (map (\<lambda>c. JStr [c]) s)"
| "own_props v = []"

text \<open>
  An array index is a key that is the decimal numeral, with no leading zero, of an
  integer from 0 to \<open>2\<^sup>3\<^sup>2 - 2\<close>. The own keys of an object are enumerated with the
  array indices first, in ascending order, and the other keys after them in the order
  of their creation.
\<close>

definition is_digit :: "char \<Rightarrow> bool" where
  "is_digit c = (c \<in> set ''0123456789'')"

definition decimal :: "string \<Rightarrow> int" where
  "decimal k = foldl (\<lambda>a c. 10 * a + (of_char c - 48)) 0 k"

definition array_index :: "string \<Rightarrow> int option" where
  "array_index k =
     (if k \<noteq> [] \<and> list_all is_digit k \<and> (k = ''0'' \<or> hd k \<noteq> CHR ''0'')
         \<and> decimal k < 4294967295
      then Some (decimal k) else None)"

definition index_below :: "int \<Rightarrow> string \<Rightarrow> bool" where
  "index_below n k = (case array_index k of Some m \<Rightarrow> m < n | None \<Rightarrow> False)"

fun insert_index :: "int \<Rightarrow> string \<Rightarrow> 'v \<Rightarrow> (string \<times> 'v) list \<Rightarrow> (string \<times> 'v) list" where
  "insert_index n k v [] = [(k, v)]"
| "insert_index n k v ((k', v') # kvs) =
     (if index_below n k' then (k', v') # insert_index n k v kvs
      else (k, v) # (k', v') # kvs)"

text \<open>
  \<open>obj_set k v kvs\<close> defines the own data property \<open>k\<close> of an object: an existing key
  keeps its position and takes the new value, a new key takes its place in the
  enumeration order.
\<close>

definition obj_set :: "string \<Rightarrow> 'v \<Rightarrow> (string \<times> 'v) list \<Rightarrow> (string \<times> 'v) list" where
  "obj_set k v kvs =
     (if k \<in> fst ` set kvs then AList.update k v kvs
      else case array_index k of
             Some n \<Rightarrow> insert_index n k v kvs
           | None \<Rightarrow> kvs @ [(k, v)])"

text \<open>
  \<open>spread base props\<close> is \<^verbatim>\<open>{...base, ...props}\<close>: each property is defined in turn.
\<close>

definition spread :: "(string \<times> jsval) list \<Rightarrow> (string \<times> jsval) list \<Rightarrow> (string \<times> jsval) list" where
  "spread base props = fold (\<lambda>(k, v) acc. obj_set k v acc) props base"

subsection \<open>JSON.stringify\<close>

text \<open>
  The platform's \<^verbatim>\<open>JSON.stringify\<close> (ECMA-262, SerializeJSONProperty) on \<open>jsval\<close>:
  an undefined value has no serialization, an undefined member of an object is skipped,
  an undefined element of an array is written \<^verbatim>\<open>null\<close>. An integer is written in
  decimal, as the engine does below \<open>10\<^sup>2\<^sup>1\<close>.
\<close>

definition hex_digit :: "nat \<Rightarrow> char" where
  "hex_digit n = ''0123456789abcdef'' ! (n mod 16)"

definition quote_char :: "char \<Rightarrow> string" where
  "quote_char c =
     (if c = CHR 0x22 then [CHR 0x5C, CHR 0x22]
      else if c = CHR 0x5C then [CHR 0x5C, CHR 0x5C]
      else if c = CHR 0x08 then [CHR 0x5C, CHR ''b'']
      else if c = CHR 0x09 then [CHR 0x5C, CHR ''t'']
      else if c = CHR 0x0A then [CHR 0x5C, CHR ''n'']
      else if c = CHR 0x0C then [CHR 0x5C, CHR ''f'']
      else if c = CHR 0x0D then [CHR 0x5C, CHR ''r'']
      else if of_char c < (32 :: nat)
        then [CHR 0x5C, CHR ''u'', CHR ''0'', CHR ''0'',
              hex_digit (of_char c div 16), hex_digit (of_char c)]
      else [c])"

definition QuoteJSONString :: "string \<Rightarrow> string" where
  "QuoteJSONString s = [CHR 0x22] @ concat (map quote_char s) @ [CHR 0x22]"

fun SerializeJSONProperty :: "jsval \<Rightarrow> string option" where
  "SerializeJSONProperty JUndefined = None"
| "SerializeJSONProperty JNull = Some ''null''"
| "SerializeJSONProperty (JBool b) = Some (if b then ''true'' else ''false'')"
| "SerializeJSONProperty (JNum n) = Some (show_int n)"
| "SerializeJSONProperty (JStr s) = Some (QuoteJSONString s)"
| "SerializeJSONProperty (JArr xs) =
     Some (''['' @ join '',''
        (map (\<lambda>x. case SerializeJSONProperty x of None \<Rightarrow> ''null'' | Some t \<Rightarrow> t) xs) @ '']'')"
| "SerializeJSONProperty (JObj kvs) =
     Some (''{'' @ join '',''
        (concat (map (\<lambda>(k, v). case SerializeJSONProperty v of
                                   None \<Rightarrow> []
                                 | Some t \<Rightarrow> [QuoteJSONString k @ '':'' @ t]) kvs)) @ ''}'')"

definition JSON_stringify :: "jsval \<Rightarrow> jsval" where
  "JSON_stringify v = (case SerializeJSONProperty v of None \<Rightarrow> JUndefined | Some t \<Rightarrow> JStr t)"

section \<open>Errors, the transport and the process state\<close>

text \<open>A thrown error (a rejected promise) is a value; only its message is ever read.\<close>

datatype js_error =
    Error (message: string)
  | TypeError (message: string)
  | SyntaxError (message: string)

text \<open>One call of the global \<^verbatim>\<open>fetch(url, init)\<close>; \<open>call_init\<close> is undefined when omitted.\<close>

record fetch_call =
  call_url :: string
  call_init :: jsval

text \<open>
  What the code reads of a fetch response: \<^verbatim>\<open>response.ok\<close>, \<^verbatim>\<open>response.status\<close>
  and the outcome of \<^verbatim>\<open>response.json()\<close> (the parsed body, or the parse failure).
\<close>

record response =
  resp_ok :: bool
  resp_status :: nat
  resp_json :: "js_error + jsval"

text \<open>A stubbed, deterministic transport: the outcome of a call depends on the call only.\<close>

type_synonym transport = "fetch_call \<Rightarrow> js_error + response"

text \<open>
  The execution environment: whether the global \<^verbatim>\<open>window\<close> exists,
  \<^verbatim>\<open>process.env\<close>, and of the engine's built-in objects the names of the members that
  an array, a string, a number or a boolean inherits from its own prototype
  (\<^verbatim>\<open>Array.prototype\<close> and so on), which differ from one version of the engine to the
  next. What every value inherits from \<^verbatim>\<open>Object.prototype\<close> is fixed below.
\<close>

record env =
  window_defined :: bool
  process_env :: "string \<rightharpoonup> string"
  builtin_keys :: "jsval \<Rightarrow> string list"

text \<open>
  The process-wide state: the module variable \<^verbatim>\<open>testConfig\<close> (initially null), and
  the calls made to \<^verbatim>\<open>fetch\<close> so far, in order.
\<close>

record state =
  testConfig :: jsval
  calls :: "fetch_call list"

type_synonym 'a outcome = "(js_error + 'a) \<times> state"

section \<open>The client, \<^verbatim>\<open>src/lib/shipi18n.js\<close>\<close>

definition setConfig :: "jsval \<Rightarrow> state \<Rightarrow> state" where
  "setConfig newConfig s = s\<lparr>testConfig := newConfig\<rparr>"

definition resetConfig :: "state \<Rightarrow> state" where
  "resetConfig s = s\<lparr>testConfig := JNull\<rparr>"

definition DEFAULT_API_URL :: string where
  "DEFAULT_API_URL = ''https://x9527l3blg.execute-api.us-east-1.amazonaws.com''"

definition env_var :: "env \<Rightarrow> string \<Rightarrow> jsval" where
  "env_var E k = (case process_env E k of None \<Rightarrow> JUndefined | Some v \<Rightarrow> JStr v)"

definition getConfig :: "env \<Rightarrow> state \<Rightarrow> jsval" where
  "getConfig E s =
     (if truthy (testConfig s) then testConfig s
      else if \<not> window_defined E then
        JObj [(''apiKey'', env_var E ''SHIPI18N_API_KEY''),
              (''apiUrl'', js_or (env_var E ''SHIPI18N_API_URL'') (JStr DEFAULT_API_URL))]
      else
        JObj [(''apiKey'', env_var E ''NEXT_PUBLIC_SHIPI18N_API_KEY''),
              (''apiUrl'', js_or (env_var E ''NEXT_PUBLIC_SHIPI18N_API_URL'') (JStr DEFAULT_API_URL))])"

definition do_fetch :: "transport \<Rightarrow> fetch_call \<Rightarrow> state \<Rightarrow> (js_error + response) \<times> state" where
  "do_fetch F c s = (F c, s\<lparr>calls := calls s @ [c]\<rparr>)"

definition MISSING_KEY :: string where
  "MISSING_KEY = ''SHIPI18N_API_KEY is not set. Get your free key at https://shipi18n.com''"

definition NULL_MESSAGE :: string where
  "NULL_MESSAGE = ''Cannot read properties of null (reading 'message')''"

text \<open>The headers object literal of \<open>apiRequest\<close>.\<close>

definition request_headers :: "jsval \<Rightarrow> (string \<times> jsval) list \<Rightarrow> (string \<times> jsval) list" where
  "request_headers apiKey options =
     spread [(''Content-Type'', JStr ''application/json''), (''X-API-Key'', apiKey)]
            (own_props (get_prop (JObj options) ''headers''))"

text \<open>The second argument of \<^verbatim>\<open>fetch\<close> in \<open>apiRequest\<close>: \<^verbatim>\<open>{...options, headers: {...}}\<close>.\<close>

definition request_init :: "jsval \<Rightarrow> (string \<times> jsval) list \<Rightarrow> jsval" where
  "request_init apiKey options =
     JObj (obj_set ''headers'' (JObj (request_headers apiKey options)) (spread [] options))"

text \<open>The error thrown for a response that is not ok.\<close>

definition api_error :: "response \<Rightarrow> js_error" where
  "api_error r =
     (let errorData = (case resp_json r of Inl e \<Rightarrow> JObj [] | Inr d \<Rightarrow> d)
      in if nullish errorData then TypeError NULL_MESSAGE
         else Error (ToString (js_or (get_prop errorData ''message'')
                                     (JStr (''API error: '' @ show_nat (resp_status r))))))"

text \<open>What \<open>apiRequest\<close> makes of the outcome of \<^verbatim>\<open>await fetch(...)\<close>.\<close>

fun api_result :: "js_error + response \<Rightarrow> js_error + jsval" where
  "api_result (Inl e) = Inl e"
| "api_result (Inr r) = (if \<not> resp_ok r then Inl (api_error r) else resp_json r)"

definition apiRequest :: "env \<Rightarrow> transport \<Rightarrow> string \<Rightarrow> (string \<times> jsval) list \<Rightarrow> state \<Rightarrow> jsval outcome" where
  "apiRequest E F endpoint options s =
     (let cfg = getConfig E s;
          apiKey = get_prop cfg ''apiKey'';
          apiUrl = get_prop cfg ''apiUrl''
      in if \<not> truthy apiKey then (Inl (Error MISSING_KEY), s)
         else
           let url = ToString apiUrl @ ''/api'' @ endpoint;
               (r, s') = do_fetch F \<lparr>call_url = url, call_init = request_init apiKey options\<rparr> s
           in (api_result r, s'))"

text \<open>The object passed to \<^verbatim>\<open>JSON.stringify\<close> by \<open>translate\<close>.\<close>

definition translate_body :: "jsval \<Rightarrow> jsval \<Rightarrow> jsval \<Rightarrow> jsval \<Rightarrow> jsval \<Rightarrow> jsval" where
  "translate_body text sourceLanguage targetLanguages preservePlaceholders enablePluralization =
     JObj [(''text'', text),
           (''sourceLanguage'', sourceLanguage),
           (''targetLanguages'', targetLanguages),
           (''preservePlaceholders'', preservePlaceholders),
           (''enablePluralization'', enablePluralization)]"

definition translate :: "env \<Rightarrow> transport \<Rightarrow> (string \<times> jsval) list \<Rightarrow> state \<Rightarrow> jsval outcome" where
  "translate E F args s =
     (let text = get_prop (JObj args) ''text'';
          sourceLanguage = default_param (get_prop (JObj args) ''sourceLanguage'') (JStr ''en'');
          targetLanguages = get_prop (JObj args) ''targetLanguages'';
          preservePlaceholders =
            default_param (get_prop (JObj args) ''preservePlaceholders'') (JBool True);
          enablePluralization =
            default_param (get_prop (JObj args) ''enablePluralization'') (JBool True)
      in if \<not> truthy text then (Inl (Error ''Text is required''), s)
         else if \<not> truthy (opt_length targetLanguages)
           then (Inl (Error ''At least one target language is required''), s)
         else apiRequest E F ''/translate''
                [(''method'', JStr ''POST''),
                 (''body'', JSON_stringify
                    (translate_body text sourceLanguage targetLanguages
                       preservePlaceholders enablePluralization))] s)"

text \<open>The object passed to \<^verbatim>\<open>JSON.stringify\<close> by \<open>translateJSON\<close>.\<close>

definition translateJSON_body :: "jsval \<Rightarrow> jsval \<Rightarrow> jsval \<Rightarrow> jsval \<Rightarrow> jsval \<Rightarrow> jsval" where
  "translateJSON_body jsonString sourceLanguage targetLanguages preservePlaceholders
      enablePluralization =
     JObj [(''text'', jsonString),
           (''sourceLanguage'', sourceLanguage),
           (''targetLanguages'', targetLanguages),
           (''preservePlaceholders'', preservePlaceholders),
           (''enablePluralization'', enablePluralization),
           (''outputFormat'', JStr ''json'')]"

text \<open>\<^verbatim>\<open>typeof json === 'string' ? json : JSON.stringify(json)\<close>\<close>

definition to_jsonString :: "jsval \<Rightarrow> jsval" where
  "to_jsonString json = (case json of JStr t \<Rightarrow> json | _ \<Rightarrow> JSON_stringify json)"

definition translateJSON :: "env \<Rightarrow> transport \<Rightarrow> (string \<times> jsval) list \<Rightarrow> state \<Rightarrow> jsval outcome" where
  "translateJSON E F args s =
     (let json = get_prop (JObj args) ''json'';
          sourceLanguage = default_param (get_prop (JObj args) ''sourceLanguage'') (JStr ''en'');
          targetLanguages = get_prop (JObj args) ''targetLanguages'';
          preservePlaceholders =
            default_param (get_prop (JObj args) ''preservePlaceholders'') (JBool True);
          enablePluralization =
            default_param (get_prop (JObj args) ''enablePluralization'') (JBool True);
          jsonString = to_jsonString json
      in apiRequest E F ''/translate''
           [(''method'', JStr ''POST''),
            (''body'', JSON_stringify
               (translateJSON_body jsonString sourceLanguage targetLanguages
                  preservePlaceholders enablePluralization))] s)"

text \<open>What \<^verbatim>\<open>for (const lang of v)\<close> iterates over; a value that is not iterable throws.\<close>

definition NOT_ITERABLE :: string where
  "NOT_ITERABLE = ''targetLanguages is not iterable''"

definition NULL_RESULT :: string where
  "NULL_RESULT = ''Cannot read properties of null''"

fun iterate :: "jsval \<Rightarrow> js_error + jsval list" where
  "iterate (JArr xs) = Inr xs"
| "iterate (JStr s) = Inr (map (\<lambda>c. JStr [c]) s)"
| "iterate v = Inl (TypeError NOT_ITERABLE)"

text \<open>
  The computed read \<^verbatim>\<open>result[lang]\<close> takes any key, so it also finds what the value
  inherits. A member is a value of \<open>jsval\<close>, or a built-in of the engine found on the
  prototype chain, named by the key under which it was found.
\<close>

datatype member = Data jsval | Builtin string

text \<open>
  The string-keyed members of \<^verbatim>\<open>Object.prototype\<close> (ECMA-262, with Annex B): every
  value other than null and undefined inherits them, and each is truthy (a function; for
  \<^verbatim>\<open>__proto__\<close> an accessor whose getter gives the prototype object).
\<close>

definition Object_prototype_keys :: "string list" where
  "Object_prototype_keys =
     [''constructor'', ''__defineGetter__'', ''__defineSetter__'', ''hasOwnProperty'',
      ''__lookupGetter__'', ''__lookupSetter__'', ''isPrototypeOf'', ''propertyIsEnumerable'',
      ''toString'', ''valueOf'', ''__proto__'', ''toLocaleString'']"

fun has_own :: "jsval \<Rightarrow> string \<Rightarrow> bool" where
  "has_own (JObj kvs) k = (k \<in> fst ` set kvs)"
| "has_own (JArr xs) k =
     (k = ''length'' \<or> find (\<lambda>i. show_nat i = k) [0..<length xs] \<noteq> None)"
| "has_own (JStr s) k =
     (k = ''length'' \<or> find (\<lambda>i. show_nat i = k) [0..<length s] \<noteq> None)"
| "has_own v k = False"

definition inherits :: "env \<Rightarrow> jsval \<Rightarrow> string \<Rightarrow> bool" where
  "inherits E v k =
     (k \<in> set Object_prototype_keys \<or>
      (case v of JObj kvs \<Rightarrow> False | _ \<Rightarrow> k \<in> set (builtin_keys E v)))"

text \<open>\<open>get_member E v k\<close> is \<^verbatim>\<open>v[k]\<close> for a value that is neither null nor undefined.\<close>

definition get_member :: "env \<Rightarrow> jsval \<Rightarrow> string \<Rightarrow> member" where
  "get_member E v k =
     (if has_own v k then Data (get_prop v k)
      else if inherits E v k then Builtin k
      else Data JUndefined)"

fun truthy_member :: "member \<Rightarrow> bool" where
  "truthy_member (Data v) = truthy v"
| "truthy_member (Builtin n) = True"

text \<open>
  \<^verbatim>\<open>translations[k] = m\<close> on the object that the loop builds: for \<^verbatim>\<open>__proto__\<close> the
  assignment runs the setter inherited from \<^verbatim>\<open>Object.prototype\<close> and defines no own
  property; for every other key it defines the own property \<open>k\<close>. (Only own properties
  of the object are modelled, not its prototype.)
\<close>

definition set_member :: "string \<Rightarrow> member \<Rightarrow> (string \<times> member) list \<Rightarrow> (string \<times> member) list" where
  "set_member k m translations =
     (if k = ''__proto__'' then translations else obj_set k m translations)"

text \<open>
  The loop of \<open>translateLocaleFile\<close>, with the object \<^verbatim>\<open>translations\<close> built so far:
  \<^verbatim>\<open>if (result[lang]) { translations[lang] = result[lang] }\<close>.
\<close>

fun project_langs :: "env \<Rightarrow> jsval \<Rightarrow> jsval list \<Rightarrow> (string \<times> member) list \<Rightarrow> js_error + (string \<times> member) list" where
  "project_langs E result [] translations = Inr translations"
| "project_langs E result (lang # langs) translations =
     (if nullish result then Inl (TypeError NULL_RESULT)
      else if truthy_member (get_member E result (ToString lang))
        then project_langs E result langs
               (set_member (ToString lang) (get_member E result (ToString lang)) translations)
        else project_langs E result langs translations)"

text \<open>The argument object that \<open>translateLocaleFile\<close> passes to \<open>translateJSON\<close>.\<close>

definition locale_request :: "(string \<times> jsval) list \<Rightarrow> (string \<times> jsval) list" where
  "locale_request args =
     [(''json'', get_prop (JObj args) ''content''),
      (''sourceLanguage'', default_param (get_prop (JObj args) ''sourceLanguage'') (JStr ''en'')),
      (''targetLanguages'', get_prop (JObj args) ''targetLanguages''),
      (''preservePlaceholders'',
         default_param (get_prop (JObj args) ''preservePlaceholders'') (JBool True)),
      (''enablePluralization'',
         default_param (get_prop (JObj args) ''enablePluralization'') (JBool True))]"

text \<open>
  The statements after the \<^verbatim>\<open>await\<close>, given the result of \<open>translateJSON\<close>; what is
  returned is the list of the own properties of \<^verbatim>\<open>translations\<close>.
\<close>

definition locale_transform :: "env \<Rightarrow> jsval \<Rightarrow> jsval \<Rightarrow> js_error + (string \<times> member) list" where
  "locale_transform E targetLanguages result =
     (case iterate targetLanguages of
        Inl e \<Rightarrow> Inl e
      | Inr langs \<Rightarrow> project_langs E result langs [])"

fun translateLocaleFile_then :: "env \<Rightarrow> jsval \<Rightarrow> jsval outcome \<Rightarrow> (string \<times> member) list outcome" where
  "translateLocaleFile_then E targetLanguages (Inl e, s') = (Inl e, s')"
| "translateLocaleFile_then E targetLanguages (Inr result, s') =
     (locale_transform E targetLanguages result, s')"

definition translateLocaleFile :: "env \<Rightarrow> transport \<Rightarrow> (string \<times> jsval) list \<Rightarrow> state \<Rightarrow> (string \<times> member) list outcome" where
  "translateLocaleFile E F args s =
     translateLocaleFile_then E (get_prop (JObj args) ''targetLanguages'')
       (translateJSON E F (locale_request args) s)"

definition healthCheck :: "env \<Rightarrow> transport \<Rightarrow> state \<Rightarrow> jsval outcome" where
  "healthCheck E F s =
     (let apiUrl = get_prop (getConfig E s) ''apiUrl''
      in case do_fetch F \<lparr>call_url = ToString apiUrl @ ''/api/health'', call_init = JUndefined\<rparr> s of
           (Inl e, s') \<Rightarrow> (Inl e, s')
         | (Inr r, s') \<Rightarrow> (resp_json r, s'))"

definition getTranslations :: "jsval \<Rightarrow> jsval \<Rightarrow> state \<Rightarrow> jsval outcome" where
  "getTranslations locale namespace s = (Inr (JObj []), s)"

section \<open>The proxy route, \<^verbatim>\<open>src/app/api/translate/route.js\<close>\<close>

text \<open>\<^verbatim>\<open>Response.json(data, { status })\<close>; the status is 200 when not given.\<close>

record http_response =
  http_status :: nat
  http_body :: jsval

definition NULL_BODY :: string where
  "NULL_BODY = ''Cannot destructure property 'text' of '(intermediate value)' as it is null.''"

definition NOT_SERIALIZABLE :: string where
  "NOT_SERIALIZABLE = ''Value is not JSON serializable''"

text \<open>The \<^verbatim>\<open>catch\<close> block of the handler.\<close>

definition error_response :: "js_error \<Rightarrow> http_response" where
  "error_response e =
     \<lparr>http_status = 500,
      http_body = JObj [(''error'', js_or (JStr (message e)) (JStr ''Translation failed''))]\<rparr>"

text \<open>
  \<open>POST E F body s\<close>: \<open>body\<close> is the outcome of \<^verbatim>\<open>await request.json()\<close>. Everything
  runs inside the \<^verbatim>\<open>try\<close>, so each throw ends in \<open>error_response\<close>. The call of
  \<^verbatim>\<open>console.error\<close> in the catch block is not modelled.
\<close>

definition dispatch :: "env \<Rightarrow> transport \<Rightarrow> jsval \<Rightarrow> jsval \<Rightarrow> jsval \<Rightarrow> jsval \<Rightarrow> state \<Rightarrow> jsval outcome" where
  "dispatch E F text targetLanguages preservePlaceholders outputFormat s =
     (if outputFormat = JStr ''json''
      then translateJSON E F
             [(''json'', text),
              (''targetLanguages'', targetLanguages),
              (''preservePlaceholders'', preservePlaceholders)] s
      else translate E F
             [(''text'', text),
              (''targetLanguages'', targetLanguages),
              (''preservePlaceholders'', preservePlaceholders)] s)"

text \<open>
  \<^verbatim>\<open>return Response.json(result)\<close>, or the catch block when the operation threw.
  \<^verbatim>\<open>Response.json\<close> itself throws on a value that has no JSON serialization.
\<close>

fun respond :: "jsval outcome \<Rightarrow> http_response \<times> state" where
  "respond (Inl e, s') = (error_response e, s')"
| "respond (Inr result, s') =
     (if result = JUndefined then (error_response (TypeError NOT_SERIALIZABLE), s')
      else (\<lparr>http_status = 200, http_body = result\<rparr>, s'))"

definition validation_error :: "string \<Rightarrow> http_response" where
  "validation_error msg = \<lparr>http_status = 400, http_body = JObj [(''error'', JStr msg)]\<rparr>"

fun POST :: "env \<Rightarrow> transport \<Rightarrow> js_error + jsval \<Rightarrow> state \<Rightarrow> http_response \<times> state" where
  "POST E F (Inl e) s = (error_response e, s)"
| "POST E F (Inr b) s =
     (if nullish b then (error_response (TypeError NULL_BODY), s)
      else
        let text = get_prop b ''text'';
            targetLanguages = get_prop b ''targetLanguages'';
            preservePlaceholders = default_param (get_prop b ''preservePlaceholders'') (JBool True);
            outputFormat = get_prop b ''outputFormat''
        in if \<not> truthy text then (validation_error ''Text is required'', s)
           else if \<not> truthy targetLanguages \<or> get_prop targetLanguages ''length'' = JNum 0
             then (validation_error ''At least one target language is required'', s)
           else respond (dispatch E F text targetLanguages preservePlaceholders outputFormat s))"

section \<open>The test fixtures of the repository\<close>

text \<open>
  The mock of the test suite: \<^verbatim>\<open>fetch\<close> answers every call with
  \<^verbatim>\<open>{ ok: mockFetchOk, status: mockFetchOk ? 200 : 401, json: async () => mockFetchResponse }\<close>.
\<close>

definition mock_fetch :: "bool \<Rightarrow> jsval \<Rightarrow> transport" where
  "mock_fetch mockFetchOk mockFetchResponse =
     (\<lambda>c. Inr \<lparr>resp_ok = mockFetchOk,
                  resp_status = (if mockFetchOk then 200 else 401),
                  resp_json = Inr mockFetchResponse\<rparr>)"

text \<open>
  The test process: a jsdom environment (\<^verbatim>\<open>window\<close> exists), no variable set. The
  answers of the mock that reach \<open>translateLocaleFile\<close> in the tests are objects, for
  which \<open>builtin_keys\<close> is not consulted; the fixture gives it no names.
\<close>

definition test_env :: env where
  "test_env = \<lparr>window_defined = True, process_env = Map.empty, builtin_keys = (\<lambda>v. [])\<rparr>"

definition initial_state :: state where
  "initial_state = \<lparr>testConfig = JNull, calls = []\<rparr>"

definition test_config :: jsval where
  "test_config = JObj [(''apiKey'', JStr ''sk_test_123''), (''apiUrl'', JStr ''https://api.test.com'')]"

definition configured_state :: state where
  "configured_state = setConfig test_config initial_state"

text \<open>
  The answer of the test \<^verbatim>\<open>excludes missing languages from result\<close>, and its arguments
  with \<^verbatim>\<open>constructor\<close> in the place of \<^verbatim>\<open>fr\<close>.
\<close>

definition locale_file_args :: "(string \<times> jsval) list" where
  "locale_file_args =
     [(''content'', JObj [(''title'', JStr ''My App'')]),
      (''targetLanguages'', JArr [JStr ''es'', JStr ''constructor''])]"

definition es_only :: "(string \<times> jsval) list" where
  "es_only = [(''es'', JObj [(''title'', JStr ''Mi App'')])]"

section \<open>Basic facts\<close>

subsection \<open>Objects\<close>

lemma map_of_insert_index:
  "k \<notin> fst ` set kvs \<Longrightarrow> map_of (insert_index n k v kvs) = (map_of kvs)(k \<mapsto> v)"
proof (induction kvs)
  case Nil
  then show ?case by simp
next
  case (Cons p kvs)
  obtain k' v' where p: "p = (k', v')" by (cases p)
  from Cons.prems p have ne: "k' \<noteq> k" and fresh: "k \<notin> fst ` set kvs" by auto
  show ?case
  proof (cases "index_below n k'")
    case True
    then have "map_of (insert_index n k v (p # kvs)) = (map_of (insert_index n k v kvs))(k' \<mapsto> v')"
      by (simp add: p)
    also have "\<dots> = ((map_of kvs)(k \<mapsto> v))(k' \<mapsto> v')"
      by (simp only: Cons.IH [OF fresh])
    also have "\<dots> = ((map_of kvs)(k' \<mapsto> v'))(k \<mapsto> v)"
      using ne by (simp add: fun_upd_twist)
    also have "\<dots> = (map_of (p # kvs))(k \<mapsto> v)"
      by (simp add: p)
    finally show ?thesis .
  next
    case False
    then show ?thesis by (auto simp: p fun_eq_iff)
  qed
qed

lemma keys_insert_index: "fst ` set (insert_index n k v kvs) = insert k (fst ` set kvs)"
proof (induction kvs)
  case Nil
  then show ?case by simp
next
  case (Cons p kvs)
  obtain k' v' where p: "p = (k', v')" by (cases p)
  show ?case
  proof (cases "index_below n k'")
    case True
    then show ?thesis using Cons.IH by (simp add: p insert_commute)
  next
    case False
    then show ?thesis by (simp add: p)
  qed
qed

lemma map_of_obj_set: "map_of (obj_set k v kvs) = (map_of kvs)(k \<mapsto> v)"
proof (cases "k \<in> fst ` set kvs")
  case True
  then show ?thesis by (simp only: obj_set_def if_True update_conv')
next
  case False
  from False have none: "map_of kvs k = None" by (simp add: map_of_eq_None_iff)
  have app: "map_of (kvs @ [(k, v)]) = (map_of kvs)(k \<mapsto> v)"
  proof
    fix x show "map_of (kvs @ [(k, v)]) x = ((map_of kvs)(k \<mapsto> v)) x"
      using none by (cases "map_of kvs x") (auto simp: map_add_def)
  qed
  show ?thesis
  proof (cases "array_index k")
    case None
    then show ?thesis using False app by (simp only: obj_set_def if_False option.case)
  next
    case (Some n)
    then show ?thesis using False map_of_insert_index [OF False, of n v]
      by (simp add: obj_set_def)
  qed
qed

lemma keys_obj_set: "fst ` set (obj_set k v kvs) = insert k (fst ` set kvs)"
proof (cases "k \<in> fst ` set kvs")
  case True
  then show ?thesis by (auto simp: obj_set_def dom_update)
next
  case False
  then show ?thesis
    by (cases "array_index k") (simp_all add: obj_set_def keys_insert_index)
qed

lemma distinct_insert_index:
  "k \<notin> fst ` set kvs \<Longrightarrow> distinct (map fst kvs) \<Longrightarrow> distinct (map fst (insert_index n k v kvs))"
proof (induction kvs)
  case Nil
  then show ?case by simp
next
  case (Cons p kvs)
  obtain k' v' where p: "p = (k', v')" by (cases p)
  from Cons.prems p have ne: "k' \<noteq> k" and fresh: "k \<notin> fst ` set kvs"
    and d: "distinct (map fst kvs)" and n: "k' \<notin> fst ` set kvs" by auto
  show ?case
  proof (cases "index_below n k'")
    case True
    then show ?thesis
      using Cons.IH [OF fresh d] ne n by (simp add: p keys_insert_index)
  next
    case False
    then show ?thesis using Cons.prems by (simp add: p)
  qed
qed

lemma distinct_obj_set:
  "distinct (map fst kvs) \<Longrightarrow> distinct (map fst (obj_set k v kvs))"
proof (cases "k \<in> fst ` set kvs")
  case True
  assume "distinct (map fst kvs)"
  with True show ?thesis by (simp add: obj_set_def distinct_update)
next
  case False
  assume d: "distinct (map fst kvs)"
  show ?thesis
  proof (cases "array_index k")
    case None
    then show ?thesis using False d by (simp add: obj_set_def)
  next
    case (Some n)
    then show ?thesis using False d by (simp add: obj_set_def distinct_insert_index)
  qed
qed

lemma map_add_upd_left_fresh:
  "n k = None \<Longrightarrow> m(k \<mapsto> v) ++ n = (m ++ n)(k \<mapsto> v)"
  by (rule ext) (simp add: map_add_def split: option.splits)

lemma map_of_spread:
  "distinct (map fst props) \<Longrightarrow> map_of (spread base props) = map_of base ++ map_of props"
proof (induction props arbitrary: base)
  case Nil
  then show ?case by (simp add: spread_def)
next
  case (Cons p props)
  obtain k v where p: "p = (k, v)" by (cases p)
  from Cons.prems p have fresh: "map_of props k = None"
    by (simp add: map_of_eq_None_iff)
  from Cons.prems have d: "distinct (map fst props)" by simp
  have "spread base (p # props) = spread (obj_set k v base) props"
    by (simp add: spread_def p)
  then have "map_of (spread base (p # props)) = (map_of base)(k \<mapsto> v) ++ map_of props"
    by (simp only: Cons.IH [OF d] map_of_obj_set)
  also have "\<dots> = (map_of base ++ map_of props)(k \<mapsto> v)"
    using fresh by (rule map_add_upd_left_fresh [of "map_of props" k "map_of base" v])
  also have "\<dots> = map_of base ++ map_of (p # props)"
    by (simp add: p)
  finally show ?case .
qed

lemma spread_empty: "distinct (map fst props) \<Longrightarrow> map_of (spread [] props) = map_of props"
  by (simp add: map_of_spread)

text \<open>Deciding the place of a key that is written out.\<close>

lemmas key_order =
  obj_set_def array_index_def is_digit_def decimal_def index_below_def

subsection \<open>Configuration and requests\<close>

lemma getConfig_cong: "testConfig s' = testConfig s \<Longrightarrow> getConfig E s' = getConfig E s"
  by (simp add: getConfig_def)

lemma getConfig_configured: "getConfig E configured_state = test_config"
  by (simp add: getConfig_def configured_state_def setConfig_def test_config_def)

lemma configured_key: "get_prop (getConfig E configured_state) ''apiKey'' = JStr ''sk_test_123''"
  by (simp add: getConfig_configured test_config_def)

lemma configured_url: "get_prop (getConfig E configured_state) ''apiUrl'' = JStr ''https://api.test.com''"
  by (simp add: getConfig_configured test_config_def)

lemma configured_calls: "calls configured_state = []"
  by (simp add: configured_state_def setConfig_def initial_state_def)

lemma apiRequest_no_key:
  "\<not> truthy (get_prop (getConfig E s) ''apiKey'') \<Longrightarrow>
   apiRequest E F endpoint options s = (Inl (Error MISSING_KEY), s)"
  by (simp add: apiRequest_def)

lemma apiRequest_key:
  "truthy (get_prop (getConfig E s) ''apiKey'') \<Longrightarrow>
   apiRequest E F endpoint options s =
     (api_result (F \<lparr>call_url = ToString (get_prop (getConfig E s) ''apiUrl'') @ ''/api'' @ endpoint,
                     call_init = request_init (get_prop (getConfig E s) ''apiKey'') options\<rparr>),
      s\<lparr>calls := calls s @
        [\<lparr>call_url = ToString (get_prop (getConfig E s) ''apiUrl'') @ ''/api'' @ endpoint,
          call_init = request_init (get_prop (getConfig E s) ''apiKey'') options\<rparr>]\<rparr>)"
  by (simp add: apiRequest_def do_fetch_def Let_def)

lemma request_init_method:
  "get_prop (request_init k [(''method'', m), (''body'', b)]) ''method'' = m"
  by (simp add: request_init_def map_of_obj_set map_of_spread)

lemma request_init_body:
  "get_prop (request_init k [(''method'', m), (''body'', b)]) ''body'' = b"
  by (simp add: request_init_def map_of_obj_set map_of_spread)

lemma translate_valid:
  "truthy (get_prop (JObj args) ''text'') \<Longrightarrow>
   truthy (opt_length (get_prop (JObj args) ''targetLanguages'')) \<Longrightarrow>
   translate E F args s =
     apiRequest E F ''/translate''
       [(''method'', JStr ''POST''),
        (''body'', JSON_stringify
           (translate_body (get_prop (JObj args) ''text'')
              (default_param (get_prop (JObj args) ''sourceLanguage'') (JStr ''en''))
              (get_prop (JObj args) ''targetLanguages'')
              (default_param (get_prop (JObj args) ''preservePlaceholders'') (JBool True))
              (default_param (get_prop (JObj args) ''enablePluralization'') (JBool True))))] s"
  by (simp add: translate_def Let_def)

lemma translateJSON_unfold:
  "translateJSON E F args s =
     apiRequest E F ''/translate''
       [(''method'', JStr ''POST''),
        (''body'', JSON_stringify
           (translateJSON_body (to_jsonString (get_prop (JObj args) ''json''))
              (default_param (get_prop (JObj args) ''sourceLanguage'') (JStr ''en''))
              (get_prop (JObj args) ''targetLanguages'')
              (default_param (get_prop (JObj args) ''preservePlaceholders'') (JBool True))
              (default_param (get_prop (JObj args) ''enablePluralization'') (JBool True))))] s"
  by (simp add: translateJSON_def Let_def)

lemma api_error_message:
  "\<not> nullish (case resp_json r of Inl e \<Rightarrow> JObj [] | Inr d \<Rightarrow> d) \<Longrightarrow>
   api_error r =
     Error (if truthy (get_prop (case resp_json r of Inl e \<Rightarrow> JObj [] | Inr d \<Rightarrow> d) ''message'')
            then ToString (get_prop (case resp_json r of Inl e \<Rightarrow> JObj [] | Inr d \<Rightarrow> d) ''message'')
            else ''API error: '' @ show_nat (resp_status r))"
  by (simp add: api_error_def Let_def js_or_def)


lemma translateJSON_no_key:
  "\<not> truthy (get_prop (getConfig E s) ''apiKey'') \<Longrightarrow>
   translateJSON E F args s = (Inl (Error MISSING_KEY), s)"
  by (simp add: translateJSON_def Let_def apiRequest_no_key)

lemma unconfigured_key: "get_prop (getConfig test_env initial_state) ''apiKey'' = JUndefined"
  by (simp add: getConfig_def test_env_def initial_state_def env_var_def)

lemma translateJSON_mock_ok:
  "fst (translateJSON E (mock_fetch True v) args configured_state) = Inr v"
  by (simp add: translateJSON_def apiRequest_def getConfig_configured test_config_def
      do_fetch_def mock_fetch_def Let_def)

subsection \<open>What an operation reads and writes of the state\<close>

text \<open>
  Each operation reads \<open>testConfig\<close> only, and appends its calls to the log: its result
  and the calls it makes are the same from every state with the same \<open>testConfig\<close>.
\<close>

lemma apiRequest_frame:
  "\<exists>r cs. \<forall>s'::state. testConfig s' = testConfig (s::state) \<longrightarrow>
      apiRequest E F endpoint options s' = (r, s'\<lparr>calls := calls s' @ cs\<rparr>)"
proof (cases "truthy (get_prop (getConfig E s) ''apiKey'')")
  case True
  let ?c = "\<lparr>call_url = ToString (get_prop (getConfig E s) ''apiUrl'') @ ''/api'' @ endpoint,
             call_init = request_init (get_prop (getConfig E s) ''apiKey'') options\<rparr>"
  have "\<forall>s'::state. testConfig s' = testConfig (s::state) \<longrightarrow>
      apiRequest E F endpoint options s' = (api_result (F ?c), s'\<lparr>calls := calls s' @ [?c]\<rparr>)"
  proof (intro allI impI)
    fix s' :: state assume "testConfig s' = testConfig s"
    then have c: "getConfig E s' = getConfig E s" by (rule getConfig_cong)
    with True have "truthy (get_prop (getConfig E s') ''apiKey'')" by simp
    from apiRequest_key [OF this, of F endpoint options]
    show "apiRequest E F endpoint options s' = (api_result (F ?c), s'\<lparr>calls := calls s' @ [?c]\<rparr>)"
      unfolding c .
  qed
  then show ?thesis by blast
next
  case False
  have "\<forall>s'::state. testConfig s' = testConfig (s::state) \<longrightarrow>
      apiRequest E F endpoint options s' = (Inl (Error MISSING_KEY), s'\<lparr>calls := calls s' @ []\<rparr>)"
  proof (intro allI impI)
    fix s' :: state assume "testConfig s' = testConfig s"
    then have c: "getConfig E s' = getConfig E s" by (rule getConfig_cong)
    with False have "\<not> truthy (get_prop (getConfig E s') ''apiKey'')" by simp
    from apiRequest_no_key [OF this, of F endpoint options]
    show "apiRequest E F endpoint options s' = (Inl (Error MISSING_KEY), s'\<lparr>calls := calls s' @ []\<rparr>)"
      by simp
  qed
  then show ?thesis by blast
qed

lemma translateJSON_frame:
  "\<exists>r cs. \<forall>s'::state. testConfig s' = testConfig (s::state) \<longrightarrow>
      translateJSON E F args s' = (r, s'\<lparr>calls := calls s' @ cs\<rparr>)"
  unfolding translateJSON_unfold by (rule apiRequest_frame)

lemma translate_frame:
  "\<exists>r cs. \<forall>s'::state. testConfig s' = testConfig (s::state) \<longrightarrow>
      translate E F args s' = (r, s'\<lparr>calls := calls s' @ cs\<rparr>)"
proof (cases "truthy (get_prop (JObj args) ''text'') \<and>
              truthy (opt_length (get_prop (JObj args) ''targetLanguages''))")
  case True
  then have "\<And>s'. translate E F args s' =
     apiRequest E F ''/translate''
       [(''method'', JStr ''POST''),
        (''body'', JSON_stringify
           (translate_body (get_prop (JObj args) ''text'')
              (default_param (get_prop (JObj args) ''sourceLanguage'') (JStr ''en''))
              (get_prop (JObj args) ''targetLanguages'')
              (default_param (get_prop (JObj args) ''preservePlaceholders'') (JBool True))
              (default_param (get_prop (JObj args) ''enablePluralization'') (JBool True))))] s'"
    by (intro translate_valid) simp_all
  then show ?thesis by (simp only: apiRequest_frame)
next
  case False
  then have "\<forall>s'::state. testConfig s' = testConfig (s::state) \<longrightarrow>
      translate E F args s' = (fst (translate E F args s), s'\<lparr>calls := calls s' @ []\<rparr>)"
    by (auto simp: translate_def Let_def)
  then show ?thesis by blast
qed

lemma translateLocaleFile_frame:
  "\<exists>r cs. \<forall>s'::state. testConfig s' = testConfig (s::state) \<longrightarrow>
      translateLocaleFile E F args s' = (r, s'\<lparr>calls := calls s' @ cs\<rparr>)"
proof -
  from translateJSON_frame [of s E F "locale_request args"]
  obtain r cs where f: "\<And>s'::state. testConfig s' = testConfig s \<Longrightarrow>
      translateJSON E F (locale_request args) s' = (r, s'\<lparr>calls := calls s' @ cs\<rparr>)"
    by blast
  let ?r = "case r of Inl e \<Rightarrow> Inl e
            | Inr v \<Rightarrow> locale_transform E (get_prop (JObj args) ''targetLanguages'') v"
  have "\<forall>s'::state. testConfig s' = testConfig (s::state) \<longrightarrow>
      translateLocaleFile E F args s' = (?r, s'\<lparr>calls := calls s' @ cs\<rparr>)"
  proof (intro allI impI)
    fix s' :: state assume "testConfig s' = testConfig s"
    from f [OF this] show "translateLocaleFile E F args s' = (?r, s'\<lparr>calls := calls s' @ cs\<rparr>)"
      by (cases r) (simp_all add: translateLocaleFile_def)
  qed
  then show ?thesis by blast
qed

lemma healthCheck_frame:
  "\<exists>r cs. \<forall>s'::state. testConfig s' = testConfig (s::state) \<longrightarrow>
      healthCheck E F s' = (r, s'\<lparr>calls := calls s' @ cs\<rparr>)"
proof -
  let ?c = "\<lparr>call_url = ToString (get_prop (getConfig E s) ''apiUrl'') @ ''/api/health'',
             call_init = JUndefined\<rparr>"
  let ?r = "case F ?c of Inl e \<Rightarrow> Inl e | Inr r \<Rightarrow> resp_json r"
  have "\<forall>s'::state. testConfig s' = testConfig (s::state) \<longrightarrow>
      healthCheck E F s' = (?r, s'\<lparr>calls := calls s' @ [?c]\<rparr>)"
  proof (intro allI impI)
    fix s' :: state assume "testConfig s' = testConfig s"
    then have c: "getConfig E s' = getConfig E s" by (rule getConfig_cong)
    show "healthCheck E F s' = (?r, s'\<lparr>calls := calls s' @ [?c]\<rparr>)"
      by (simp add: healthCheck_def c do_fetch_def split: sum.splits)
  qed
  then show ?thesis by blast
qed

lemma frame_config:
  assumes "\<forall>s'::state. testConfig s' = testConfig (s::state) \<longrightarrow> f s' = (r, s'\<lparr>calls := calls s' @ cs\<rparr>)"
  shows "testConfig (snd (f s)) = testConfig s"
  using assms by simp

lemma frame_result:
  assumes "\<forall>s'::state. testConfig s' = testConfig (s::state) \<longrightarrow> f s' = (r, s'\<lparr>calls := calls s' @ cs\<rparr>)"
    and "testConfig s2 = testConfig s"
  shows "fst (f s2) = fst (f s)"
  using assms by simp

lemma frame_calls:
  assumes "\<forall>s'::state. testConfig s' = testConfig (s::state) \<longrightarrow> f s' = (r, s'\<lparr>calls := calls s' @ cs\<rparr>)"
    and "testConfig s2 = testConfig s"
  shows "drop (length (calls s2)) (calls (snd (f s2))) = drop (length (calls s)) (calls (snd (f s)))"
  using assms by simp

lemma frame_again:
  assumes "\<forall>s'::state. testConfig s' = testConfig (s::state) \<longrightarrow> f s' = (r, s'\<lparr>calls := calls s' @ cs\<rparr>)"
  shows "fst (f (snd (f s))) = fst (f s)"
  using assms by simp

lemma dispatch_frame:
  "\<exists>r cs. \<forall>s'::state. testConfig s' = testConfig (s::state) \<longrightarrow>
      dispatch E F t langs pp outputFormat s' = (r, s'\<lparr>calls := calls s' @ cs\<rparr>)"
proof (cases "outputFormat = JStr ''json''")
  case True
  then have "\<And>s'. dispatch E F t langs pp outputFormat s' =
      translateJSON E F [(''json'', t), (''targetLanguages'', langs), (''preservePlaceholders'', pp)] s'"
    by (simp add: dispatch_def)
  then show ?thesis by (simp only: translateJSON_frame)
next
  case False
  then have "\<And>s'. dispatch E F t langs pp outputFormat s' =
      translate E F [(''text'', t), (''targetLanguages'', langs), (''preservePlaceholders'', pp)] s'"
    by (simp add: dispatch_def)
  then show ?thesis by (simp only: translate_frame)
qed

lemma snd_respond: "snd (respond x) = snd x"
  by (cases x rule: respond.cases) simp_all

lemma POST_config: "testConfig (snd (POST E F body s)) = testConfig s"
proof (cases body)
  case (Inl e)
  then show ?thesis by simp
next
  case (Inr b)
  from dispatch_frame [of s E F "get_prop b ''text''" "get_prop b ''targetLanguages''"
      "default_param (get_prop b ''preservePlaceholders'') (JBool True)" "get_prop b ''outputFormat''"]
  obtain r cs where "dispatch E F (get_prop b ''text'') (get_prop b ''targetLanguages'')
      (default_param (get_prop b ''preservePlaceholders'') (JBool True)) (get_prop b ''outputFormat'') s
        = (r, s\<lparr>calls := calls s @ cs\<rparr>)"
    by blast
  then show ?thesis
    unfolding Inr by (simp add: Let_def snd_respond)
qed

subsection \<open>The projection loop of \<open>translateLocaleFile\<close>\<close>

lemma project_langs_total:
  "\<not> nullish r \<Longrightarrow> \<exists>t. project_langs E r langs acc = Inr t"
  by (induction langs arbitrary: acc) simp_all

lemma map_of_set_member:
  "map_of (set_member k m acc) = (if k = ''__proto__'' then map_of acc else (map_of acc)(k \<mapsto> m))"
  by (simp add: set_member_def map_of_obj_set)

lemma project_langs_lookup:
  "project_langs E r langs acc = Inr t \<Longrightarrow>
   map_of t k = (if k \<noteq> ''__proto__'' \<and> k \<in> ToString ` set langs \<and> truthy_member (get_member E r k)
                 then Some (get_member E r k) else map_of acc k)"
proof (induction langs arbitrary: acc)
  case Nil
  then show ?case by simp
next
  case (Cons lang langs)
  show ?case
  proof (cases "truthy_member (get_member E r (ToString lang))")
    case True
    with Cons.prems
    have "project_langs E r langs (set_member (ToString lang) (get_member E r (ToString lang)) acc) = Inr t"
      by (simp split: if_splits)
    from Cons.IH [OF this] True show ?thesis
      by (auto simp: map_of_set_member)
  next
    case False
    with Cons.prems have "project_langs E r langs acc = Inr t"
      by (simp split: if_splits)
    from Cons.IH [OF this] False show ?thesis
      by auto
  qed
qed

lemma get_member_own:
  "map_of raw k = Some v \<Longrightarrow> get_member E (JObj raw) k = Data v"
  by (auto simp: get_member_def dest: map_of_SomeD intro: rev_image_eqI)

lemma locale_transform_object:
  "\<exists>t. locale_transform E (JArr (map JStr langs)) (JObj raw) = Inr t \<and>
       (\<forall>k. map_of t k =
              (if k \<noteq> ''__proto__'' \<and> k \<in> set langs \<and> truthy_member (get_member E (JObj raw) k)
               then Some (get_member E (JObj raw) k) else None))"
proof -
  have "\<not> nullish (JObj raw)" by (simp add: nullish_def)
  then obtain t where t: "project_langs E (JObj raw) (map JStr langs) [] = Inr t"
    using project_langs_total by blast
  have run: "locale_transform E (JArr (map JStr langs)) (JObj raw) = Inr t"
    by (simp add: locale_transform_def t)
  have img: "ToString ` set (map JStr langs) = set langs"
    by (simp add: image_image)
  have look: "\<forall>k. map_of t k =
              (if k \<noteq> ''__proto__'' \<and> k \<in> set langs \<and> truthy_member (get_member E (JObj raw) k)
               then Some (get_member E (JObj raw) k) else None)"
  proof
    fix k
    show "map_of t k =
              (if k \<noteq> ''__proto__'' \<and> k \<in> set langs \<and> truthy_member (get_member E (JObj raw) k)
               then Some (get_member E (JObj raw) k) else None)"
      unfolding project_langs_lookup [OF t, of k] img by simp
  qed
  show ?thesis
    by (rule exI [of _ t]) (intro conjI run look)
qed

lemma fst_translateLocaleFile:
  "fst (translateLocaleFile E F args s) =
     (case fst (translateJSON E F (locale_request args) s) of
        Inl e \<Rightarrow> Inl e
      | Inr v \<Rightarrow> locale_transform E (get_prop (JObj args) ''targetLanguages'') v)"
proof -
  obtain r s' where run: "translateJSON E F (locale_request args) s = (r, s')"
    by (cases "translateJSON E F (locale_request args) s")
  show ?thesis
    unfolding translateLocaleFile_def run by (cases r) simp_all
qed

section \<open>The request gateway\<close>

text \<open>
  C1, as the code has it. Take a call of \<open>apiRequest\<close> with a configured key whose
  \<^verbatim>\<open>options.headers\<close> is absent or is a plain object \<open>hs\<close> of header names and values.
  The single call to \<^verbatim>\<open>fetch\<close> carries the caller's options with the \<^verbatim>\<open>headers\<close>
  entry replaced by a merged object. Every property of \<open>hs\<close> is in it with the caller's
  value, under every name, \<^verbatim>\<open>Content-Type\<close> and \<^verbatim>\<open>X-API-Key\<close> included. Under a name
  that \<open>hs\<close> does not have, compared as written (property names are case-sensitive), it
  has the mandatory value (\<^verbatim>\<open>application/json\<close>, the configured key) or nothing.
\<close>

theorem apiRequest_headers_merge:
  assumes key: "truthy (get_prop (getConfig E s) ''apiKey'')"
    and opts: "distinct (map fst options)"
    and form: "(get_prop (JObj options) ''headers'' = JObj hs \<and> distinct (map fst hs)) \<or>
               (get_prop (JObj options) ''headers'' = JUndefined \<and> hs = [])"
  shows "\<exists>init headers.
           calls (snd (apiRequest E F endpoint options s)) =
             calls s @ [\<lparr>call_url = ToString (get_prop (getConfig E s) ''apiUrl'') @ ''/api'' @ endpoint,
                         call_init = JObj init\<rparr>] \<and>
           map_of init ''headers'' = Some (JObj headers) \<and>
           (\<forall>k. k \<noteq> ''headers'' \<longrightarrow> map_of init k = map_of options k) \<and>
           (\<forall>k v. map_of hs k = Some v \<longrightarrow> map_of headers k = Some v) \<and>
           (\<forall>k. map_of hs k = None \<longrightarrow>
                map_of headers k =
                  map_of [(''Content-Type'', JStr ''application/json''),
                          (''X-API-Key'', get_prop (getConfig E s) ''apiKey'')] k)"
proof -
  let ?key = "get_prop (getConfig E s) ''apiKey''"
  let ?headers = "request_headers ?key options"
  let ?init = "obj_set ''headers'' (JObj ?headers) (spread [] options)"
  from form have caller: "own_props (get_prop (JObj options) ''headers'') = hs"
    and dist: "distinct (map fst hs)"
    by auto
  have sent: "calls (snd (apiRequest E F endpoint options s)) =
             calls s @ [\<lparr>call_url = ToString (get_prop (getConfig E s) ''apiUrl'') @ ''/api'' @ endpoint,
                         call_init = JObj ?init\<rparr>]"
    by (simp add: apiRequest_key [OF key] request_init_def)
  have h: "map_of ?init ''headers'' = Some (JObj ?headers)"
    by (simp add: map_of_obj_set)
  have others: "\<forall>k. k \<noteq> ''headers'' \<longrightarrow> map_of ?init k = map_of options k"
    by (simp add: map_of_obj_set spread_empty [OF opts])
  have merged: "map_of ?headers =
      map_of [(''Content-Type'', JStr ''application/json''), (''X-API-Key'', ?key)] ++ map_of hs"
    unfolding request_headers_def caller by (rule map_of_spread [OF dist])
  have kept: "\<forall>k v. map_of hs k = Some v \<longrightarrow> map_of ?headers k = Some v"
    unfolding merged by (simp add: map_add_def)
  have mandatory: "\<forall>k. map_of hs k = None \<longrightarrow>
      map_of ?headers k = map_of [(''Content-Type'', JStr ''application/json''), (''X-API-Key'', ?key)] k"
    unfolding merged by (simp add: map_add_def)
  show ?thesis
    by (rule exI [of _ ?init], rule exI [of _ ?headers]) (intro conjI sent h others kept mandatory)
qed

text \<open>
  The merge at a concrete call: the caller's \<^verbatim>\<open>X-Trace\<close> header is kept, the caller's
  \<^verbatim>\<open>Content-Type\<close> wins, and the caller's \<^verbatim>\<open>x-api-key\<close> is a property of its own
  beside \<^verbatim>\<open>X-API-Key\<close>, which is the configured key.
\<close>

theorem apiRequest_headers_merge_witness:
  "truthy (get_prop (getConfig test_env configured_state) ''apiKey'') \<and>
   get_prop (JObj [(''method'', JStr ''POST''),
                   (''headers'', JObj [(''X-Trace'', JStr ''abc''),
                                       (''Content-Type'', JStr ''text/plain''),
                                       (''x-api-key'', JStr ''lower'')])]) ''headers''
     = JObj [(''X-Trace'', JStr ''abc''), (''Content-Type'', JStr ''text/plain''),
             (''x-api-key'', JStr ''lower'')] \<and>
   (\<exists>init headers.
      calls (snd (apiRequest test_env (mock_fetch True (JObj [])) ''/translate''
                   [(''method'', JStr ''POST''),
                    (''headers'', JObj [(''X-Trace'', JStr ''abc''),
                                        (''Content-Type'', JStr ''text/plain''),
                                        (''x-api-key'', JStr ''lower'')])]
                   configured_state)) =
        [\<lparr>call_url = ''https://api.test.com/api/translate'', call_init = JObj init\<rparr>] \<and>
      map_of init ''headers'' = Some (JObj headers) \<and>
      map_of init ''method'' = Some (JStr ''POST'') \<and>
      map_of headers ''X-Trace'' = Some (JStr ''abc'') \<and>
      map_of headers ''Content-Type'' = Some (JStr ''text/plain'') \<and>
      map_of headers ''x-api-key'' = Some (JStr ''lower'') \<and>
      map_of headers ''X-API-Key'' = Some (JStr ''sk_test_123''))"
proof -
  let ?hs = "[(''X-Trace'', JStr ''abc''), (''Content-Type'', JStr ''text/plain''),
              (''x-api-key'', JStr ''lower'')]"
  let ?options = "[(''method'', JStr ''POST''), (''headers'', JObj ?hs)]"
  have key: "truthy (get_prop (getConfig test_env configured_state) ''apiKey'')"
    by (simp add: configured_key)
  have opts: "distinct (map fst ?options)" by simp
  have given: "get_prop (JObj ?options) ''headers'' = JObj ?hs" by simp
  have form: "(get_prop (JObj ?options) ''headers'' = JObj ?hs \<and> distinct (map fst ?hs)) \<or>
               (get_prop (JObj ?options) ''headers'' = JUndefined \<and> ?hs = [])"
    by simp
  from apiRequest_headers_merge [OF key opts form, of "mock_fetch True (JObj [])" "''/translate''"]
  obtain init headers where
    sent: "calls (snd (apiRequest test_env (mock_fetch True (JObj [])) ''/translate'' ?options configured_state)) =
       calls configured_state @
         [\<lparr>call_url = ToString (get_prop (getConfig test_env configured_state) ''apiUrl'') @ ''/api'' @ ''/translate'',
           call_init = JObj init\<rparr>]"
    and h: "map_of init ''headers'' = Some (JObj headers)"
    and others: "\<forall>k. k \<noteq> ''headers'' \<longrightarrow> map_of init k = map_of ?options k"
    and kept: "\<forall>k v. map_of ?hs k = Some v \<longrightarrow> map_of headers k = Some v"
    and mandatory: "\<forall>k. map_of ?hs k = None \<longrightarrow>
                map_of headers k =
                  map_of [(''Content-Type'', JStr ''application/json''),
                          (''X-API-Key'', get_prop (getConfig test_env configured_state) ''apiKey'')] k"
    by (elim exE conjE)
  have sent': "calls (snd (apiRequest test_env (mock_fetch True (JObj [])) ''/translate'' ?options configured_state)) =
        [\<lparr>call_url = ''https://api.test.com/api/translate'', call_init = JObj init\<rparr>]"
    using sent by (simp add: configured_url configured_calls)
  have m: "map_of init ''method'' = Some (JStr ''POST'')"
    using others by simp
  have t: "map_of headers ''X-Trace'' = Some (JStr ''abc'')"
    using kept by simp
  have c: "map_of headers ''Content-Type'' = Some (JStr ''text/plain'')"
    using kept by simp
  have l: "map_of headers ''x-api-key'' = Some (JStr ''lower'')"
    using kept by simp
  have k: "map_of headers ''X-API-Key'' = Some (JStr ''sk_test_123'')"
    using mandatory by (simp add: configured_key)
  from sent' h m t c l k have "\<exists>init headers.
      calls (snd (apiRequest test_env (mock_fetch True (JObj [])) ''/translate'' ?options configured_state)) =
        [\<lparr>call_url = ''https://api.test.com/api/translate'', call_init = JObj init\<rparr>] \<and>
      map_of init ''headers'' = Some (JObj headers) \<and>
      map_of init ''method'' = Some (JStr ''POST'') \<and>
      map_of headers ''X-Trace'' = Some (JStr ''abc'') \<and>
      map_of headers ''Content-Type'' = Some (JStr ''text/plain'') \<and>
      map_of headers ''x-api-key'' = Some (JStr ''lower'') \<and>
      map_of headers ''X-API-Key'' = Some (JStr ''sk_test_123'')"
    by (intro exI [of _ init] exI [of _ headers] conjI)
  with key given show ?thesis by (intro conjI)
qed

text \<open>
  C1 as stated fails: a caller-supplied \<^verbatim>\<open>X-API-Key\<close> header replaces the configured
  key, because the caller's headers are spread after both mandatory headers.
\<close>

theorem apiRequest_caller_overrides_api_key:
  "get_prop (getConfig test_env configured_state) ''apiKey'' = JStr ''sk_test_123'' \<and>
   calls (snd (apiRequest test_env (mock_fetch True (JObj [])) ''/translate''
                [(''method'', JStr ''POST''),
                 (''headers'', JObj [(''X-API-Key'', JStr ''caller-key'')])]
                configured_state)) =
     [\<lparr>call_url = ''https://api.test.com/api/translate'',
       call_init = JObj [(''method'', JStr ''POST''),
                         (''headers'', JObj [(''Content-Type'', JStr ''application/json''),
                                             (''X-API-Key'', JStr ''caller-key'')])]\<rparr>]"
  by (simp add: apiRequest_def configured_key configured_url configured_calls do_fetch_def
      Let_def request_init_def request_headers_def spread_def key_order)

text \<open>
  C6, as the code has it. When the transport answers the call of \<open>apiRequest\<close> with a
  response that is not ok, the body is parsed as JSON and taken to be the empty object
  when parsing fails. When the body's \<^verbatim>\<open>message\<close> is a non-empty string, \<open>apiRequest\<close>
  fails with an \<open>Error\<close> of that message. When the body is not \<^verbatim>\<open>null\<close> and its
  \<^verbatim>\<open>message\<close> is absent or falsy (\<^verbatim>\<open>""\<close>, \<^verbatim>\<open>null\<close>, \<^verbatim>\<open>0\<close>, \<^verbatim>\<open>false\<close>), the
  message is the string \<^verbatim>\<open>API error: \<close> followed by the status in decimal; so it is
  when the body did not parse. When the body parsed to \<^verbatim>\<open>null\<close>, reading its
  \<^verbatim>\<open>message\<close> throws and \<open>apiRequest\<close> fails with that \<open>TypeError\<close>.
\<close>

theorem apiRequest_error_message:
  assumes key: "truthy (get_prop (getConfig E s) ''apiKey'')"
    and resp: "F \<lparr>call_url = ToString (get_prop (getConfig E s) ''apiUrl'') @ ''/api'' @ endpoint,
                   call_init = request_init (get_prop (getConfig E s) ''apiKey'') options\<rparr> = Inr r"
    and notok: "\<not> resp_ok r"
    and parsed: "errorData = (case resp_json r of Inl e \<Rightarrow> JObj [] | Inr d \<Rightarrow> d)"
    and status: "resp_status r < 10 ^ 21"
  shows "(\<forall>m. get_prop errorData ''message'' = JStr m \<and> m \<noteq> [] \<longrightarrow>
              fst (apiRequest E F endpoint options s) = Inl (Error m)) \<and>
         (\<not> nullish errorData \<and> \<not> truthy (get_prop errorData ''message'') \<longrightarrow>
              fst (apiRequest E F endpoint options s) =
                Inl (Error (''API error: '' @ show_nat (resp_status r)))) \<and>
         (\<forall>e. resp_json r = Inl e \<longrightarrow>
              fst (apiRequest E F endpoint options s) =
                Inl (Error (''API error: '' @ show_nat (resp_status r)))) \<and>
         (nullish errorData \<longrightarrow>
              fst (apiRequest E F endpoint options s) = Inl (TypeError NULL_MESSAGE))"
proof -
  have run: "fst (apiRequest E F endpoint options s) = Inl (api_error r)"
    unfolding apiRequest_key [OF key] resp using notok by simp
  have err: "api_error r =
     (if nullish errorData then TypeError NULL_MESSAGE
      else Error (if truthy (get_prop errorData ''message'')
                  then ToString (get_prop errorData ''message'')
                  else ''API error: '' @ show_nat (resp_status r)))"
    unfolding parsed by (simp add: api_error_def Let_def js_or_def)
  have nn: "\<And>m. get_prop errorData ''message'' = JStr m \<Longrightarrow> m \<noteq> [] \<Longrightarrow> \<not> nullish errorData"
    by (cases errorData) (auto simp: nullish_def)
  have str: "\<forall>m. get_prop errorData ''message'' = JStr m \<and> m \<noteq> [] \<longrightarrow>
              fst (apiRequest E F endpoint options s) = Inl (Error m)"
    unfolding run err using nn by auto
  have falsy: "\<not> nullish errorData \<and> \<not> truthy (get_prop errorData ''message'') \<longrightarrow>
              fst (apiRequest E F endpoint options s) =
                Inl (Error (''API error: '' @ show_nat (resp_status r)))"
    unfolding run err by simp
  have unparsed: "\<forall>e. resp_json r = Inl e \<longrightarrow>
              fst (apiRequest E F endpoint options s) =
                Inl (Error (''API error: '' @ show_nat (resp_status r)))"
    unfolding run err parsed by (simp add: nullish_def)
  have null: "nullish errorData \<longrightarrow>
              fst (apiRequest E F endpoint options s) = Inl (TypeError NULL_MESSAGE)"
    unfolding run err by simp
  show ?thesis by (intro conjI str falsy unparsed null)
qed

text \<open>
  The tests \<^verbatim>\<open>throws error on non-ok response\<close> and \<^verbatim>\<open>provides fallback error message\<close>,
  and a 502 whose body is not JSON.
\<close>

theorem apiRequest_error_message_witness:
  "fst (apiRequest test_env (mock_fetch False (JObj [(''message'', JStr ''Invalid API key'')]))
          ''/translate'' [(''method'', JStr ''POST'')] configured_state)
     = Inl (Error ''Invalid API key'') \<and>
   fst (apiRequest test_env (mock_fetch False (JObj []))
          ''/translate'' [(''method'', JStr ''POST'')] configured_state)
     = Inl (Error ''API error: 401'') \<and>
   fst (apiRequest test_env
          (\<lambda>c. Inr \<lparr>resp_ok = False, resp_status = 502,
                       resp_json = Inl (SyntaxError ''Unexpected token'')\<rparr>)
          ''/translate'' [(''method'', JStr ''POST'')] configured_state)
     = Inl (Error ''API error: 502'')"
proof -
  have key: "truthy (get_prop (getConfig test_env configured_state) ''apiKey'')"
    by (simp add: configured_key)
  have a: "fst (apiRequest test_env (mock_fetch False (JObj [(''message'', JStr ''Invalid API key'')]))
          ''/translate'' [(''method'', JStr ''POST'')] configured_state)
     = Inl (Error ''Invalid API key'')"
    using apiRequest_error_message [OF key, of "mock_fetch False (JObj [(''message'', JStr ''Invalid API key'')])"
        "''/translate''" "[(''method'', JStr ''POST'')]"
        "\<lparr>resp_ok = False, resp_status = 401, resp_json = Inr (JObj [(''message'', JStr ''Invalid API key'')])\<rparr>"
        "JObj [(''message'', JStr ''Invalid API key'')]"]
    by (simp add: mock_fetch_def nullish_def)
  have b: "fst (apiRequest test_env (mock_fetch False (JObj []))
          ''/translate'' [(''method'', JStr ''POST'')] configured_state)
     = Inl (Error ''API error: 401'')"
    using apiRequest_error_message [OF key, of "mock_fetch False (JObj [])"
        "''/translate''" "[(''method'', JStr ''POST'')]"
        "\<lparr>resp_ok = False, resp_status = 401, resp_json = Inr (JObj [])\<rparr>"
        "JObj []"]
    by (simp add: mock_fetch_def nullish_def show_nat.simps)
  have c: "fst (apiRequest test_env
          (\<lambda>c. Inr \<lparr>resp_ok = False, resp_status = 502,
                       resp_json = Inl (SyntaxError ''Unexpected token'')\<rparr>)
          ''/translate'' [(''method'', JStr ''POST'')] configured_state)
     = Inl (Error ''API error: 502'')"
    using apiRequest_error_message [OF key, of
        "\<lambda>c. Inr \<lparr>resp_ok = False, resp_status = 502,
                       resp_json = Inl (SyntaxError ''Unexpected token'')\<rparr>"
        "''/translate''" "[(''method'', JStr ''POST'')]"
        "\<lparr>resp_ok = False, resp_status = 502, resp_json = Inl (SyntaxError ''Unexpected token'')\<rparr>"
        "JObj []"]
    by (simp add: nullish_def show_nat.simps)
  from a b c show ?thesis by (intro conjI)
qed

text \<open>
  C6 as stated fails: a body whose \<^verbatim>\<open>message\<close> field is present and is the empty
  string gives the synthesized message, and a body that is \<^verbatim>\<open>null\<close> gives a
  \<open>TypeError\<close> with neither message.
\<close>

theorem apiRequest_error_message_not_used:
  "fst (apiRequest test_env (mock_fetch False (JObj [(''message'', JStr [])]))
          ''/translate'' [(''method'', JStr ''POST'')] configured_state)
     = Inl (Error ''API error: 401'') \<and>
   fst (apiRequest test_env (mock_fetch False JNull)
          ''/translate'' [(''method'', JStr ''POST'')] configured_state)
     = Inl (TypeError ''Cannot read properties of null (reading 'message')'')"
  by (simp add: apiRequest_def configured_key configured_url do_fetch_def Let_def mock_fetch_def
      api_error_def nullish_def js_or_def show_nat.simps NULL_MESSAGE_def)

text \<open>
  C2, as the code has it. When the resolved configuration has a falsy \<^verbatim>\<open>apiKey\<close>,
  \<open>apiRequest\<close>, \<open>translateJSON\<close> and \<open>translateLocaleFile\<close> fail with the error
  \<^verbatim>\<open>SHIPI18N_API_KEY is not set. Get your free key at https://shipi18n.com\<close> and
  leave the state as it was: no call to \<^verbatim>\<open>fetch\<close> is made. So does \<open>translate\<close> when
  its two inputs pass validation; with invalid input it fails earlier, and in either case
  it makes no call. \<open>healthCheck\<close> is no part of this: it makes its one call to
  \<^verbatim>\<open>{apiUrl}/api/health\<close> in every configuration.
\<close>

theorem missing_key_fails_before_fetch:
  assumes nokey: "\<not> truthy (get_prop (getConfig E s) ''apiKey'')"
  shows "apiRequest E F endpoint options s = (Inl (Error MISSING_KEY), s) \<and>
         translateJSON E F args s = (Inl (Error MISSING_KEY), s) \<and>
         translateLocaleFile E F args s = (Inl (Error MISSING_KEY), s) \<and>
         (truthy (get_prop (JObj args) ''text'') \<and>
          truthy (opt_length (get_prop (JObj args) ''targetLanguages'')) \<longrightarrow>
            translate E F args s = (Inl (Error MISSING_KEY), s)) \<and>
         snd (translate E F args s) = s \<and>
         take 27 MISSING_KEY = ''SHIPI18N_API_KEY is not set'' \<and>
         calls (snd (healthCheck E F s)) =
           calls s @ [\<lparr>call_url = ToString (get_prop (getConfig E s) ''apiUrl'') @ ''/api/health'',
                       call_init = JUndefined\<rparr>]"
proof -
  have a: "apiRequest E F endpoint options s = (Inl (Error MISSING_KEY), s)"
    by (rule apiRequest_no_key [OF nokey])
  have j: "translateJSON E F args s = (Inl (Error MISSING_KEY), s)"
    by (rule translateJSON_no_key [OF nokey])
  have l: "translateLocaleFile E F args s = (Inl (Error MISSING_KEY), s)"
    by (simp add: translateLocaleFile_def translateJSON_no_key [OF nokey])
  have t: "truthy (get_prop (JObj args) ''text'') \<and>
          truthy (opt_length (get_prop (JObj args) ''targetLanguages'')) \<longrightarrow>
            translate E F args s = (Inl (Error MISSING_KEY), s)"
    by (simp add: translate_def Let_def apiRequest_no_key [OF nokey])
  have u: "snd (translate E F args s) = s"
    by (simp add: translate_def Let_def apiRequest_no_key [OF nokey])
  have m: "take 27 MISSING_KEY = ''SHIPI18N_API_KEY is not set''"
    by (simp add: MISSING_KEY_def)
  have h: "calls (snd (healthCheck E F s)) =
           calls s @ [\<lparr>call_url = ToString (get_prop (getConfig E s) ''apiUrl'') @ ''/api/health'',
                       call_init = JUndefined\<rparr>]"
    by (simp add: healthCheck_def do_fetch_def Let_def split: sum.splits)
  show ?thesis by (intro conjI a j l t u m h)
qed

text \<open>The test \<^verbatim>\<open>throws error when API key is not set\<close>, and its siblings.\<close>

theorem missing_key_fails_before_fetch_witness:
  "\<not> truthy (get_prop (getConfig test_env initial_state) ''apiKey'') \<and>
   apiRequest test_env (mock_fetch True (JObj [])) ''/translate'' [(''method'', JStr ''POST'')]
     initial_state = (Inl (Error MISSING_KEY), initial_state) \<and>
   translate test_env (mock_fetch True (JObj []))
     [(''text'', JStr ''Hello''), (''targetLanguages'', JArr [JStr ''es''])] initial_state
     = (Inl (Error MISSING_KEY), initial_state) \<and>
   translateLocaleFile test_env (mock_fetch True (JObj []))
     [(''text'', JStr ''Hello''), (''targetLanguages'', JArr [JStr ''es''])] initial_state
     = (Inl (Error MISSING_KEY), initial_state) \<and>
   calls initial_state = []"
proof -
  have nokey: "\<not> truthy (get_prop (getConfig test_env initial_state) ''apiKey'')"
    by (simp add: unconfigured_key)
  from missing_key_fails_before_fetch [OF nokey, of "mock_fetch True (JObj [])" "''/translate''"
      "[(''method'', JStr ''POST'')]" "[(''text'', JStr ''Hello''), (''targetLanguages'', JArr [JStr ''es''])]"]
  show ?thesis using nokey by (simp add: opt_length_def nullish_def initial_state_def)
qed

text \<open>
  C2 as stated fails for \<open>healthCheck\<close>: it reads \<^verbatim>\<open>apiUrl\<close> only, never tests the
  key, and calls \<^verbatim>\<open>fetch\<close> with no key configured.
\<close>

theorem healthCheck_fetches_without_key:
  "\<not> truthy (get_prop (getConfig test_env initial_state) ''apiKey'') \<and>
   healthCheck test_env (mock_fetch True (JObj [(''status'', JStr ''healthy'')])) initial_state =
     (Inr (JObj [(''status'', JStr ''healthy'')]),
      \<lparr>testConfig = JNull,
       calls = [\<lparr>call_url = ''https://x9527l3blg.execute-api.us-east-1.amazonaws.com/api/health'',
                 call_init = JUndefined\<rparr>]\<rparr>)"
  by (simp add: unconfigured_key healthCheck_def getConfig_def test_env_def initial_state_def
      env_var_def js_or_def DEFAULT_API_URL_def do_fetch_def mock_fetch_def)

section \<open>The translation operations\<close>

text \<open>
  C3. \<open>translate\<close> checks its input before anything else. With a falsy
  \<^verbatim>\<open>text\<close> it fails with \<^verbatim>\<open>Text is required\<close>; with a truthy text and
  \<^verbatim>\<open>targetLanguages\<close> missing (undefined or null) or the empty list it fails with
  \<^verbatim>\<open>At least one target language is required\<close>; in both cases the state is
  unchanged, so no call to the transport was made, whatever the configuration. With a
  truthy text and a non-empty list, on a client with a configured key, it makes exactly
  one call, a \<^verbatim>\<open>POST\<close> to \<^verbatim>\<open>{apiUrl}/api/translate\<close>, and when the transport
  answers that call with an ok response whose body parses to \<open>v\<close>, the result is \<open>v\<close>
  itself.
\<close>

theorem translate_validates_before_fetch:
  "(\<not> truthy (get_prop (JObj args) ''text'') \<longrightarrow>
      translate E F args s = (Inl (Error ''Text is required''), s)) \<and>
   (truthy (get_prop (JObj args) ''text'') \<and>
    (get_prop (JObj args) ''targetLanguages'' = JUndefined \<or>
     get_prop (JObj args) ''targetLanguages'' = JNull \<or>
     get_prop (JObj args) ''targetLanguages'' = JArr []) \<longrightarrow>
      translate E F args s = (Inl (Error ''At least one target language is required''), s)) \<and>
   (truthy (get_prop (JObj args) ''text'') \<and>
    get_prop (JObj args) ''targetLanguages'' = JArr (l # ls) \<and>
    truthy (get_prop (getConfig E s) ''apiKey'') \<longrightarrow>
      (\<exists>c. translate E F args s = (api_result (F c), s\<lparr>calls := calls s @ [c]\<rparr>) \<and>
           call_url c = ToString (get_prop (getConfig E s) ''apiUrl'') @ ''/api/translate'' \<and>
           get_prop (call_init c) ''method'' = JStr ''POST'' \<and>
           (\<forall>r v. F c = Inr r \<and> resp_ok r \<and> resp_json r = Inr v \<longrightarrow>
                  fst (translate E F args s) = Inr v)))"
proof (intro conjI impI)
  assume "\<not> truthy (get_prop (JObj args) ''text'')"
  then show "translate E F args s = (Inl (Error ''Text is required''), s)"
    by (simp add: translate_def Let_def)
next
  assume a: "truthy (get_prop (JObj args) ''text'') \<and>
    (get_prop (JObj args) ''targetLanguages'' = JUndefined \<or>
     get_prop (JObj args) ''targetLanguages'' = JNull \<or>
     get_prop (JObj args) ''targetLanguages'' = JArr [])"
  then have "\<not> truthy (opt_length (get_prop (JObj args) ''targetLanguages''))"
    by (auto simp: opt_length_def nullish_def)
  with a show "translate E F args s = (Inl (Error ''At least one target language is required''), s)"
    by (simp add: translate_def Let_def)
next
  assume a: "truthy (get_prop (JObj args) ''text'') \<and>
    get_prop (JObj args) ''targetLanguages'' = JArr (l # ls) \<and>
    truthy (get_prop (getConfig E s) ''apiKey'')"
  let ?options = "[(''method'', JStr ''POST''),
        (''body'', JSON_stringify
           (translate_body (get_prop (JObj args) ''text'')
              (default_param (get_prop (JObj args) ''sourceLanguage'') (JStr ''en''))
              (get_prop (JObj args) ''targetLanguages'')
              (default_param (get_prop (JObj args) ''preservePlaceholders'') (JBool True))
              (default_param (get_prop (JObj args) ''enablePluralization'') (JBool True))))]"
  let ?c = "\<lparr>call_url = ToString (get_prop (getConfig E s) ''apiUrl'') @ ''/api'' @ ''/translate'',
             call_init = request_init (get_prop (getConfig E s) ''apiKey'') ?options\<rparr>"
  from a have len: "truthy (opt_length (get_prop (JObj args) ''targetLanguages''))"
    by (simp add: opt_length_def nullish_def)
  from a have tt: "truthy (get_prop (JObj args) ''text'')" and key: "truthy (get_prop (getConfig E s) ''apiKey'')"
    by simp_all
  have run: "translate E F args s = (api_result (F ?c), s\<lparr>calls := calls s @ [?c]\<rparr>)"
    unfolding translate_valid [OF tt len] by (rule apiRequest_key [OF key])
  have url: "call_url ?c = ToString (get_prop (getConfig E s) ''apiUrl'') @ ''/api/translate''"
    by simp
  have meth: "get_prop (call_init ?c) ''method'' = JStr ''POST''"
    by (simp add: request_init_method)
  have verb: "\<forall>r v. F ?c = Inr r \<and> resp_ok r \<and> resp_json r = Inr v \<longrightarrow>
                  fst (translate E F args s) = Inr v"
    by (simp add: run)
  show "\<exists>c. translate E F args s = (api_result (F c), s\<lparr>calls := calls s @ [c]\<rparr>) \<and>
           call_url c = ToString (get_prop (getConfig E s) ''apiUrl'') @ ''/api/translate'' \<and>
           get_prop (call_init c) ''method'' = JStr ''POST'' \<and>
           (\<forall>r v. F c = Inr r \<and> resp_ok r \<and> resp_json r = Inr v \<longrightarrow>
                  fst (translate E F args s) = Inr v)"
    by (rule exI [of _ ?c]) (intro conjI run url meth verb)
qed

text \<open>
  The tests \<^verbatim>\<open>throws error when text is empty\<close>,
  \<^verbatim>\<open>throws error when targetLanguages is empty\<close> and \<^verbatim>\<open>returns translation response\<close>.
\<close>

theorem translate_validates_before_fetch_witness:
  "translate test_env (mock_fetch True (JObj []))
     [(''text'', JStr []), (''targetLanguages'', JArr [JStr ''es''])] configured_state
     = (Inl (Error ''Text is required''), configured_state) \<and>
   translate test_env (mock_fetch True (JObj []))
     [(''text'', JStr ''Hello''), (''targetLanguages'', JArr [])] configured_state
     = (Inl (Error ''At least one target language is required''), configured_state) \<and>
   (\<exists>c. translate test_env
            (mock_fetch True (JObj [(''es'', JArr [JObj [(''original'', JStr ''Hello''),
                                                         (''translated'', JStr ''Hola'')]])]))
            [(''text'', JStr ''Hello''), (''targetLanguages'', JArr [JStr ''es''])] configured_state
          = (Inr (JObj [(''es'', JArr [JObj [(''original'', JStr ''Hello''),
                                             (''translated'', JStr ''Hola'')]])]),
             configured_state\<lparr>calls := [c]\<rparr>) \<and>
        call_url c = ''https://api.test.com/api/translate'' \<and>
        get_prop (call_init c) ''method'' = JStr ''POST'')"
proof -
  let ?v = "JObj [(''es'', JArr [JObj [(''original'', JStr ''Hello''), (''translated'', JStr ''Hola'')]])]"
  have a: "translate test_env (mock_fetch True (JObj []))
     [(''text'', JStr []), (''targetLanguages'', JArr [JStr ''es''])] configured_state
     = (Inl (Error ''Text is required''), configured_state)"
    using translate_validates_before_fetch
      [of "[(''text'', JStr []), (''targetLanguages'', JArr [JStr ''es''])]"
          test_env "mock_fetch True (JObj [])" configured_state]
    by simp
  have b: "translate test_env (mock_fetch True (JObj []))
     [(''text'', JStr ''Hello''), (''targetLanguages'', JArr [])] configured_state
     = (Inl (Error ''At least one target language is required''), configured_state)"
    using translate_validates_before_fetch
      [of "[(''text'', JStr ''Hello''), (''targetLanguages'', JArr [])]"
          test_env "mock_fetch True (JObj [])" configured_state]
    by simp
  have "\<exists>c. translate test_env (mock_fetch True ?v)
            [(''text'', JStr ''Hello''), (''targetLanguages'', JArr [JStr ''es''])] configured_state
          = (api_result (mock_fetch True ?v c), configured_state\<lparr>calls := calls configured_state @ [c]\<rparr>) \<and>
        call_url c = ToString (get_prop (getConfig test_env configured_state) ''apiUrl'') @ ''/api/translate'' \<and>
        get_prop (call_init c) ''method'' = JStr ''POST'' \<and>
        (\<forall>r v. mock_fetch True ?v c = Inr r \<and> resp_ok r \<and> resp_json r = Inr v \<longrightarrow>
           fst (translate test_env (mock_fetch True ?v)
            [(''text'', JStr ''Hello''), (''targetLanguages'', JArr [JStr ''es''])] configured_state) = Inr v)"
    using translate_validates_before_fetch
      [of "[(''text'', JStr ''Hello''), (''targetLanguages'', JArr [JStr ''es''])]"
          test_env "mock_fetch True ?v" configured_state "JStr ''es''" "[]"]
    by (simp add: configured_key)
  then obtain c where
    run: "translate test_env (mock_fetch True ?v)
            [(''text'', JStr ''Hello''), (''targetLanguages'', JArr [JStr ''es''])] configured_state
          = (api_result (mock_fetch True ?v c), configured_state\<lparr>calls := calls configured_state @ [c]\<rparr>)"
    and url: "call_url c = ToString (get_prop (getConfig test_env configured_state) ''apiUrl'') @ ''/api/translate''"
    and meth: "get_prop (call_init c) ''method'' = JStr ''POST''"
    by (elim exE conjE)
  have run': "translate test_env (mock_fetch True ?v)
            [(''text'', JStr ''Hello''), (''targetLanguages'', JArr [JStr ''es''])] configured_state
          = (Inr ?v, configured_state\<lparr>calls := [c]\<rparr>)"
    unfolding run by (simp add: mock_fetch_def configured_calls)
  have url': "call_url c = ''https://api.test.com/api/translate''"
    unfolding url by (simp add: configured_url)
  from run' url' meth have "\<exists>c. translate test_env (mock_fetch True ?v)
            [(''text'', JStr ''Hello''), (''targetLanguages'', JArr [JStr ''es''])] configured_state
          = (Inr ?v, configured_state\<lparr>calls := [c]\<rparr>) \<and>
        call_url c = ''https://api.test.com/api/translate'' \<and>
        get_prop (call_init c) ''method'' = JStr ''POST''"
    by (intro exI [of _ c] conjI)
  with a b show ?thesis by (intro conjI)
qed

text \<open>
  C8. For a truthy \<^verbatim>\<open>text\<close> and a non-empty \<^verbatim>\<open>targetLanguages\<close>, when
  \<^verbatim>\<open>sourceLanguage\<close>, \<^verbatim>\<open>preservePlaceholders\<close> and \<^verbatim>\<open>enablePluralization\<close> are
  not given, the request that \<open>translate\<close> sends has as body the serialization of an
  object with \<^verbatim>\<open>sourceLanguage\<close> \<^verbatim>\<open>"en"\<close>, \<^verbatim>\<open>preservePlaceholders\<close> true and
  \<^verbatim>\<open>enablePluralization\<close> true. That request is the only call made, and it is made
  whenever a key is configured.
\<close>

theorem translate_sends_defaults:
  assumes "truthy (get_prop (JObj args) ''text'')"
    and "truthy (opt_length (get_prop (JObj args) ''targetLanguages''))"
    and "get_prop (JObj args) ''sourceLanguage'' = JUndefined"
    and "get_prop (JObj args) ''preservePlaceholders'' = JUndefined"
    and "get_prop (JObj args) ''enablePluralization'' = JUndefined"
  shows "\<exists>c. get_prop (call_init c) ''body'' =
               JSON_stringify (JObj [(''text'', get_prop (JObj args) ''text''),
                                     (''sourceLanguage'', JStr ''en''),
                                     (''targetLanguages'', get_prop (JObj args) ''targetLanguages''),
                                     (''preservePlaceholders'', JBool True),
                                     (''enablePluralization'', JBool True)]) \<and>
             calls (snd (translate E F args s)) =
               (if truthy (get_prop (getConfig E s) ''apiKey'') then calls s @ [c] else calls s)"
proof -
  let ?body = "JSON_stringify (JObj [(''text'', get_prop (JObj args) ''text''),
                                     (''sourceLanguage'', JStr ''en''),
                                     (''targetLanguages'', get_prop (JObj args) ''targetLanguages''),
                                     (''preservePlaceholders'', JBool True),
                                     (''enablePluralization'', JBool True)])"
  let ?options = "[(''method'', JStr ''POST''), (''body'', ?body)]"
  let ?c = "\<lparr>call_url = ToString (get_prop (getConfig E s) ''apiUrl'') @ ''/api'' @ ''/translate'',
             call_init = request_init (get_prop (getConfig E s) ''apiKey'') ?options\<rparr>"
  have run: "translate E F args s = apiRequest E F ''/translate'' ?options s"
    unfolding translate_valid [OF assms(1,2)] assms(3-5)
    by (simp add: default_param_def translate_body_def)
  have body: "get_prop (call_init ?c) ''body'' = ?body"
    by (simp add: request_init_body)
  have sent: "calls (snd (translate E F args s)) =
               (if truthy (get_prop (getConfig E s) ''apiKey'') then calls s @ [?c] else calls s)"
  proof (cases "truthy (get_prop (getConfig E s) ''apiKey'')")
    case True
    then show ?thesis unfolding run by (simp add: apiRequest_key)
  next
    case False
    then show ?thesis unfolding run by (simp add: apiRequest_no_key)
  qed
  show ?thesis
    by (rule exI [of _ ?c]) (intro conjI body sent)
qed

text \<open>The test \<^verbatim>\<open>uses default values\<close>, with the body as the transport receives it.\<close>

theorem translate_sends_defaults_witness:
  \<open>truthy (get_prop (JObj [(''text'', JStr ''Hello''), (''targetLanguages'', JArr [JStr ''es''])]) ''text'') \<and>
   (\<exists>c. calls (snd (translate test_env (mock_fetch True (JObj [(''es'', JObj [])]))
                      [(''text'', JStr ''Hello''), (''targetLanguages'', JArr [JStr ''es''])]
                      configured_state)) = [c] \<and>
        get_prop (call_init c) ''body'' =
          JStr ''{"text":"Hello","sourceLanguage":"en","targetLanguages":["es"],"preservePlaceholders":true,"enablePluralization":true}'')\<close>
proof -
  let ?args = "[(''text'', JStr ''Hello''), (''targetLanguages'', JArr [JStr ''es''])]"
  have h1: "truthy (get_prop (JObj ?args) ''text'')" by simp
  have h2: "truthy (opt_length (get_prop (JObj ?args) ''targetLanguages''))"
    by (simp add: opt_length_def nullish_def)
  have h3: "get_prop (JObj ?args) ''sourceLanguage'' = JUndefined" by simp
  have h4: "get_prop (JObj ?args) ''preservePlaceholders'' = JUndefined" by simp
  have h5: "get_prop (JObj ?args) ''enablePluralization'' = JUndefined" by simp
  from translate_sends_defaults [OF h1 h2 h3 h4 h5, of test_env "mock_fetch True (JObj [(''es'', JObj [])])" configured_state]
  obtain c where body: "get_prop (call_init c) ''body'' =
               JSON_stringify (JObj [(''text'', get_prop (JObj ?args) ''text''),
                                     (''sourceLanguage'', JStr ''en''),
                                     (''targetLanguages'', get_prop (JObj ?args) ''targetLanguages''),
                                     (''preservePlaceholders'', JBool True),
                                     (''enablePluralization'', JBool True)])"
    and sent: "calls (snd (translate test_env (mock_fetch True (JObj [(''es'', JObj [])])) ?args configured_state)) =
               (if truthy (get_prop (getConfig test_env configured_state) ''apiKey'')
                then calls configured_state @ [c] else calls configured_state)"
    by (elim exE conjE)
  have sent': "calls (snd (translate test_env (mock_fetch True (JObj [(''es'', JObj [])])) ?args configured_state)) = [c]"
    unfolding sent by (simp add: configured_key configured_calls)
  have body': \<open>get_prop (call_init c) ''body'' =
          JStr ''{"text":"Hello","sourceLanguage":"en","targetLanguages":["es"],"preservePlaceholders":true,"enablePluralization":true}''\<close>
    unfolding body
    by (simp add: JSON_stringify_def QuoteJSONString_def quote_char_def)
  from sent' body' h1 show ?thesis by blast
qed

text \<open>
  C4. The request that \<open>translateJSON\<close> sends has as body the serialization of an
  object whose \<^verbatim>\<open>text\<close> is the \<^verbatim>\<open>json\<close> argument itself when that is a string, and
  the \<^verbatim>\<open>JSON.stringify\<close> of the argument otherwise, and whose \<^verbatim>\<open>outputFormat\<close> is
  \<^verbatim>\<open>"json"\<close>, for every argument. That request is the only call made, and it is made
  whenever a key is configured. The serialization of \<^verbatim>\<open>{a: 1}\<close> is \<^verbatim>\<open>{"a":1}\<close>.
\<close>

theorem translateJSON_sends_json_text:
  \<open>(\<exists>c. get_prop (call_init c) ''body'' =
          JSON_stringify
            (JObj [(''text'', (case get_prop (JObj args) ''json'' of
                                 JStr t \<Rightarrow> JStr t
                               | v \<Rightarrow> JSON_stringify v)),
                   (''sourceLanguage'',
                      default_param (get_prop (JObj args) ''sourceLanguage'') (JStr ''en'')),
                   (''targetLanguages'', get_prop (JObj args) ''targetLanguages''),
                   (''preservePlaceholders'',
                      default_param (get_prop (JObj args) ''preservePlaceholders'') (JBool True)),
                   (''enablePluralization'',
                      default_param (get_prop (JObj args) ''enablePluralization'') (JBool True)),
                   (''outputFormat'', JStr ''json'')]) \<and>
        calls (snd (translateJSON E F args s)) =
          (if truthy (get_prop (getConfig E s) ''apiKey'') then calls s @ [c] else calls s)) \<and>
   JSON_stringify (JObj [(''a'', JNum 1)]) = JStr ''{"a":1}''\<close>
proof -
  let ?body = "JSON_stringify
           (translateJSON_body (to_jsonString (get_prop (JObj args) ''json''))
              (default_param (get_prop (JObj args) ''sourceLanguage'') (JStr ''en''))
              (get_prop (JObj args) ''targetLanguages'')
              (default_param (get_prop (JObj args) ''preservePlaceholders'') (JBool True))
              (default_param (get_prop (JObj args) ''enablePluralization'') (JBool True)))"
  let ?options = "[(''method'', JStr ''POST''), (''body'', ?body)]"
  let ?c = "\<lparr>call_url = ToString (get_prop (getConfig E s) ''apiUrl'') @ ''/api'' @ ''/translate'',
             call_init = request_init (get_prop (getConfig E s) ''apiKey'') ?options\<rparr>"
  have tj: "to_jsonString (get_prop (JObj args) ''json'') =
      (case get_prop (JObj args) ''json'' of JStr t \<Rightarrow> JStr t | v \<Rightarrow> JSON_stringify v)"
    by (simp add: to_jsonString_def split: jsval.splits)
  have body: "get_prop (call_init ?c) ''body'' =
          JSON_stringify
            (JObj [(''text'', (case get_prop (JObj args) ''json'' of
                                 JStr t \<Rightarrow> JStr t
                               | v \<Rightarrow> JSON_stringify v)),
                   (''sourceLanguage'',
                      default_param (get_prop (JObj args) ''sourceLanguage'') (JStr ''en'')),
                   (''targetLanguages'', get_prop (JObj args) ''targetLanguages''),
                   (''preservePlaceholders'',
                      default_param (get_prop (JObj args) ''preservePlaceholders'') (JBool True)),
                   (''enablePluralization'',
                      default_param (get_prop (JObj args) ''enablePluralization'') (JBool True)),
                   (''outputFormat'', JStr ''json'')])"
    by (simp only: request_init_body fetch_call.simps translateJSON_body_def tj)
  have sent: "calls (snd (translateJSON E F args s)) =
          (if truthy (get_prop (getConfig E s) ''apiKey'') then calls s @ [?c] else calls s)"
  proof (cases "truthy (get_prop (getConfig E s) ''apiKey'')")
    case True
    then show ?thesis unfolding translateJSON_unfold by (simp add: apiRequest_key)
  next
    case False
    then show ?thesis unfolding translateJSON_unfold by (simp add: apiRequest_no_key)
  qed
  have ex: \<open>JSON_stringify (JObj [(''a'', JNum 1)]) = JStr ''{"a":1}''\<close>
    by (simp add: JSON_stringify_def QuoteJSONString_def quote_char_def show_int_def show_nat.simps)
  show ?thesis
    by (intro conjI exI [of _ ?c] body sent ex)
qed

text \<open>The request for \<^verbatim>\<open>translateJSON({json: {a: 1}, targetLanguages: ["es"]})\<close>.\<close>

theorem translateJSON_sends_json_text_witness:
  \<open>\<exists>c. calls (snd (translateJSON test_env (mock_fetch True (JObj [(''es'', JObj [(''a'', JNum 1)])]))
                     [(''json'', JObj [(''a'', JNum 1)]), (''targetLanguages'', JArr [JStr ''es''])]
                     configured_state)) = [c] \<and>
       get_prop (call_init c) ''body'' =
         JSON_stringify
           (JObj [(''text'', JStr ''{"a":1}''),
                  (''sourceLanguage'', JStr ''en''),
                  (''targetLanguages'', JArr [JStr ''es'']),
                  (''preservePlaceholders'', JBool True),
                  (''enablePluralization'', JBool True),
                  (''outputFormat'', JStr ''json'')])\<close>
proof -
  let ?args = "[(''json'', JObj [(''a'', JNum 1)]), (''targetLanguages'', JArr [JStr ''es''])]"
  let ?F = "mock_fetch True (JObj [(''es'', JObj [(''a'', JNum 1)])])"
  from translateJSON_sends_json_text [of ?args test_env ?F configured_state]
  obtain c where
    body: "get_prop (call_init c) ''body'' =
          JSON_stringify
            (JObj [(''text'', (case get_prop (JObj ?args) ''json'' of
                                 JStr t \<Rightarrow> JStr t
                               | v \<Rightarrow> JSON_stringify v)),
                   (''sourceLanguage'',
                      default_param (get_prop (JObj ?args) ''sourceLanguage'') (JStr ''en'')),
                   (''targetLanguages'', get_prop (JObj ?args) ''targetLanguages''),
                   (''preservePlaceholders'',
                      default_param (get_prop (JObj ?args) ''preservePlaceholders'') (JBool True)),
                   (''enablePluralization'',
                      default_param (get_prop (JObj ?args) ''enablePluralization'') (JBool True)),
                   (''outputFormat'', JStr ''json'')])"
    and sent: "calls (snd (translateJSON test_env ?F ?args configured_state)) =
          (if truthy (get_prop (getConfig test_env configured_state) ''apiKey'')
           then calls configured_state @ [c] else calls configured_state)"
    and ex: \<open>JSON_stringify (JObj [(''a'', JNum 1)]) = JStr ''{"a":1}''\<close>
    by (elim exE conjE)
  have sent': "calls (snd (translateJSON test_env ?F ?args configured_state)) = [c]"
    unfolding sent by (simp add: configured_key configured_calls)
  have body': \<open>get_prop (call_init c) ''body'' =
         JSON_stringify
           (JObj [(''text'', JStr ''{"a":1}''),
                  (''sourceLanguage'', JStr ''en''),
                  (''targetLanguages'', JArr [JStr ''es'']),
                  (''preservePlaceholders'', JBool True),
                  (''enablePluralization'', JBool True),
                  (''outputFormat'', JStr ''json'')])\<close>
    unfolding body by (simp add: default_param_def ex)
  from sent' body' show ?thesis by blast
qed

section \<open>The locale file projection\<close>

text \<open>
  C5 fails at a requested name that every object inherits. The answer of the test
  \<^verbatim>\<open>excludes missing languages from result\<close> has the one key \<^verbatim>\<open>es\<close>; requested are
  \<^verbatim>\<open>es\<close> and \<^verbatim>\<open>constructor\<close>. The loop tests \<^verbatim>\<open>result[lang]\<close>, which for
  \<^verbatim>\<open>constructor\<close> is the function that the answer inherits from \<^verbatim>\<open>Object.prototype\<close>,
  and copies it: the result has the key \<^verbatim>\<open>constructor\<close>, which the response lacks.
\<close>

theorem translateLocaleFile_returns_inherited_member:
  "fst (translateJSON test_env (mock_fetch True (JObj es_only)) (locale_request locale_file_args)
          configured_state)
     = Inr (JObj [(''es'', JObj [(''title'', JStr ''Mi App'')])]) \<and>
   fst (translateLocaleFile test_env (mock_fetch True (JObj es_only)) locale_file_args
          configured_state)
     = Inr [(''es'', Data (JObj [(''title'', JStr ''Mi App'')])),
            (''constructor'', Builtin ''constructor'')]"
  by (simp add: fst_translateLocaleFile translateJSON_mock_ok locale_file_args_def es_only_def
      locale_transform_def nullish_def get_member_def inherits_def Object_prototype_keys_def
      set_member_def key_order)

text \<open>
  C10. When the underlying \<open>translateJSON\<close> call returns an object \<open>raw\<close> and the
  requested \<^verbatim>\<open>targetLanguages\<close> are the list \<open>langs\<close> of language codes,
  \<open>translateLocaleFile\<close> succeeds, and a requested language that is a key of the
  response is a key of the result only when its value is truthy: with a falsy value
  (\<^verbatim>\<open>null\<close>, \<^verbatim>\<open>""\<close>, \<^verbatim>\<open>0\<close>, \<^verbatim>\<open>false\<close>) the language is no key of the result, as
  for a language that the response lacks. With a truthy value the entry is copied, except
  under the name \<^verbatim>\<open>__proto__\<close>, where the assignment reaches the setter that
  \<^verbatim>\<open>Object.prototype\<close> defines and creates no key.
\<close>

theorem translateLocaleFile_omits_falsy:
  assumes raw: "translateJSON E F (locale_request args) s = (Inr (JObj raw), s')"
    and req: "get_prop (JObj args) ''targetLanguages'' = JArr (map JStr langs)"
  shows "\<exists>t. translateLocaleFile E F args s = (Inr t, s') \<and>
             (\<forall>l \<in> set langs. \<forall>v. map_of raw l = Some v \<longrightarrow>
                (\<not> truthy v \<longrightarrow> l \<notin> fst ` set t) \<and>
                (truthy v \<and> l \<noteq> ''__proto__'' \<longrightarrow> map_of t l = Some (Data v)))"
proof -
  from locale_transform_object [of E langs raw] obtain t where
    run: "locale_transform E (JArr (map JStr langs)) (JObj raw) = Inr t"
    and look: "\<forall>k. map_of t k =
              (if k \<noteq> ''__proto__'' \<and> k \<in> set langs \<and> truthy_member (get_member E (JObj raw) k)
               then Some (get_member E (JObj raw) k) else None)"
    by (elim exE conjE)
  have res: "translateLocaleFile E F args s = (Inr t, s')"
    unfolding translateLocaleFile_def raw req by (simp add: run)
  have each: "\<forall>l \<in> set langs. \<forall>v. map_of raw l = Some v \<longrightarrow>
                (\<not> truthy v \<longrightarrow> l \<notin> fst ` set t) \<and>
                (truthy v \<and> l \<noteq> ''__proto__'' \<longrightarrow> map_of t l = Some (Data v))"
  proof (intro ballI allI impI conjI)
    fix l v
    assume l: "l \<in> set langs" and v: "map_of raw l = Some v" and f: "\<not> truthy v"
    have "get_member E (JObj raw) l = Data v" by (rule get_member_own [OF v])
    with f have "map_of t l = None" using look by simp
    then show "l \<notin> fst ` set t" by (simp add: map_of_eq_None_iff)
  next
    fix l v
    assume l: "l \<in> set langs" and v: "map_of raw l = Some v"
      and tr: "truthy v \<and> l \<noteq> ''__proto__''"
    have "get_member E (JObj raw) l = Data v" by (rule get_member_own [OF v])
    with tr l show "map_of t l = Some (Data v)" using look by simp
  qed
  show ?thesis by (rule exI [of _ t]) (intro conjI res each)
qed

text \<open>
  An answer in which \<^verbatim>\<open>fr\<close> is present but \<^verbatim>\<open>null\<close> and \<^verbatim>\<open>de\<close> is the empty
  string: only \<^verbatim>\<open>es\<close> is in the result.
\<close>

theorem translateLocaleFile_omits_falsy_witness:
  "translateJSON test_env
     (mock_fetch True (JObj [(''es'', JObj [(''title'', JStr ''Mi App'')]), (''fr'', JNull),
                             (''de'', JStr [])]))
     (locale_request [(''content'', JObj [(''title'', JStr ''My App'')]),
                      (''targetLanguages'', JArr (map JStr [''es'', ''fr'', ''de'']))])
     configured_state
     = (Inr (JObj [(''es'', JObj [(''title'', JStr ''Mi App'')]), (''fr'', JNull),
                   (''de'', JStr [])]),
        snd (translateJSON test_env
          (mock_fetch True (JObj [(''es'', JObj [(''title'', JStr ''Mi App'')]), (''fr'', JNull),
                                  (''de'', JStr [])]))
          (locale_request [(''content'', JObj [(''title'', JStr ''My App'')]),
                           (''targetLanguages'', JArr (map JStr [''es'', ''fr'', ''de'']))])
          configured_state)) \<and>
   (\<exists>t. fst (translateLocaleFile test_env
          (mock_fetch True (JObj [(''es'', JObj [(''title'', JStr ''Mi App'')]), (''fr'', JNull),
                                  (''de'', JStr [])]))
          [(''content'', JObj [(''title'', JStr ''My App'')]),
           (''targetLanguages'', JArr (map JStr [''es'', ''fr'', ''de'']))]
          configured_state) = Inr t \<and>
        map_of t ''es'' = Some (Data (JObj [(''title'', JStr ''Mi App'')])) \<and>
        ''fr'' \<notin> fst ` set t \<and> ''de'' \<notin> fst ` set t)"
proof -
  let ?raw = "[(''es'', JObj [(''title'', JStr ''Mi App'')]), (''fr'', JNull), (''de'', JStr [])]"
  let ?F = "mock_fetch True (JObj ?raw)"
  let ?args = "[(''content'', JObj [(''title'', JStr ''My App'')]),
                (''targetLanguages'', JArr (map JStr [''es'', ''fr'', ''de'']))]"
  let ?s' = "snd (translateJSON test_env ?F (locale_request ?args) configured_state)"
  have raw: "translateJSON test_env ?F (locale_request ?args) configured_state = (Inr (JObj ?raw), ?s')"
    using translateJSON_mock_ok [of test_env "JObj ?raw" "locale_request ?args"]
    by (simp add: prod_eq_iff)
  have req: "get_prop (JObj ?args) ''targetLanguages'' = JArr (map JStr [''es'', ''fr'', ''de''])"
    by simp
  from translateLocaleFile_omits_falsy [OF raw req] obtain t where
    res: "translateLocaleFile test_env ?F ?args configured_state = (Inr t, ?s')"
    and each: "\<forall>l \<in> set [''es'', ''fr'', ''de'']. \<forall>v. map_of ?raw l = Some v \<longrightarrow>
                (\<not> truthy v \<longrightarrow> l \<notin> fst ` set t) \<and>
                (truthy v \<and> l \<noteq> ''__proto__'' \<longrightarrow> map_of t l = Some (Data v))"
    by (elim exE conjE)
  have r: "fst (translateLocaleFile test_env ?F ?args configured_state) = Inr t"
    unfolding res by (rule fst_conv)
  have es: "map_of t ''es'' = Some (Data (JObj [(''title'', JStr ''Mi App'')]))"
    using each by simp
  have fr: "''fr'' \<notin> fst ` set t"
    using each by simp
  have de: "''de'' \<notin> fst ` set t"
    using each by simp
  from r es fr de have "\<exists>t. fst (translateLocaleFile test_env ?F ?args configured_state) = Inr t \<and>
        map_of t ''es'' = Some (Data (JObj [(''title'', JStr ''Mi App'')])) \<and>
        ''fr'' \<notin> fst ` set t \<and> ''de'' \<notin> fst ` set t"
    by (intro exI [of _ t] conjI)
  with raw show ?thesis by (intro conjI)
qed

section \<open>The proxy endpoint\<close>




section \<open>Repeatability\<close>

text \<open>
  C9. The result of \<open>translate\<close>, \<open>translateJSON\<close> and \<open>translateLocaleFile\<close>, and
  the calls each makes, are the same from any two states with the same configuration
  override, for the same input, environment and transport: nothing else of the state is
  read, so calling an operation again after itself gives the same result. No operation of
  the client or of the route writes \<open>testConfig\<close>: \<open>setConfig\<close> and \<open>resetConfig\<close> are its
  only writers.
\<close>

theorem operations_repeatable:
  fixes s1 s2 :: state
  shows "(testConfig s2 = testConfig s1 \<longrightarrow>
            fst (translate E F args s2) = fst (translate E F args s1) \<and>
            drop (length (calls s2)) (calls (snd (translate E F args s2))) =
              drop (length (calls s1)) (calls (snd (translate E F args s1))) \<and>
            fst (translateJSON E F args s2) = fst (translateJSON E F args s1) \<and>
            drop (length (calls s2)) (calls (snd (translateJSON E F args s2))) =
              drop (length (calls s1)) (calls (snd (translateJSON E F args s1))) \<and>
            fst (translateLocaleFile E F args s2) = fst (translateLocaleFile E F args s1) \<and>
            drop (length (calls s2)) (calls (snd (translateLocaleFile E F args s2))) =
              drop (length (calls s1)) (calls (snd (translateLocaleFile E F args s1)))) \<and>
         fst (translate E F args (snd (translate E F args s1))) = fst (translate E F args s1) \<and>
         fst (translateJSON E F args (snd (translateJSON E F args s1))) =
           fst (translateJSON E F args s1) \<and>
         fst (translateLocaleFile E F args (snd (translateLocaleFile E F args s1))) =
           fst (translateLocaleFile E F args s1) \<and>
         testConfig (snd (translate E F args s1)) = testConfig s1 \<and>
         testConfig (snd (translateJSON E F args s1)) = testConfig s1 \<and>
         testConfig (snd (translateLocaleFile E F args s1)) = testConfig s1 \<and>
         testConfig (snd (apiRequest E F endpoint options s1)) = testConfig s1 \<and>
         testConfig (snd (healthCheck E F s1)) = testConfig s1 \<and>
         testConfig (snd (getTranslations locale namespace s1)) = testConfig s1 \<and>
         testConfig (snd (POST E F body s1)) = testConfig s1"
proof -
  from translate_frame [of s1 E F args] obtain rt ct where
    t: "\<forall>s'::state. testConfig s' = testConfig s1 \<longrightarrow>
          translate E F args s' = (rt, s'\<lparr>calls := calls s' @ ct\<rparr>)"
    by blast
  from translateJSON_frame [of s1 E F args] obtain rj cj where
    j: "\<forall>s'::state. testConfig s' = testConfig s1 \<longrightarrow>
          translateJSON E F args s' = (rj, s'\<lparr>calls := calls s' @ cj\<rparr>)"
    by blast
  from translateLocaleFile_frame [of s1 E F args] obtain rl cl where
    l: "\<forall>s'::state. testConfig s' = testConfig s1 \<longrightarrow>
          translateLocaleFile E F args s' = (rl, s'\<lparr>calls := calls s' @ cl\<rparr>)"
    by blast
  from apiRequest_frame [of s1 E F endpoint options] obtain ra ca where
    a: "\<forall>s'::state. testConfig s' = testConfig s1 \<longrightarrow>
          apiRequest E F endpoint options s' = (ra, s'\<lparr>calls := calls s' @ ca\<rparr>)"
    by blast
  from healthCheck_frame [of s1 E F] obtain rh ch where
    h: "\<forall>s'::state. testConfig s' = testConfig s1 \<longrightarrow>
          healthCheck E F s' = (rh, s'\<lparr>calls := calls s' @ ch\<rparr>)"
    by blast
  have same: "testConfig s2 = testConfig s1 \<longrightarrow>
            fst (translate E F args s2) = fst (translate E F args s1) \<and>
            drop (length (calls s2)) (calls (snd (translate E F args s2))) =
              drop (length (calls s1)) (calls (snd (translate E F args s1))) \<and>
            fst (translateJSON E F args s2) = fst (translateJSON E F args s1) \<and>
            drop (length (calls s2)) (calls (snd (translateJSON E F args s2))) =
              drop (length (calls s1)) (calls (snd (translateJSON E F args s1))) \<and>
            fst (translateLocaleFile E F args s2) = fst (translateLocaleFile E F args s1) \<and>
            drop (length (calls s2)) (calls (snd (translateLocaleFile E F args s2))) =
              drop (length (calls s1)) (calls (snd (translateLocaleFile E F args s1)))"
  proof
    assume eq: "testConfig s2 = testConfig s1"
    show "fst (translate E F args s2) = fst (translate E F args s1) \<and>
            drop (length (calls s2)) (calls (snd (translate E F args s2))) =
              drop (length (calls s1)) (calls (snd (translate E F args s1))) \<and>
            fst (translateJSON E F args s2) = fst (translateJSON E F args s1) \<and>
            drop (length (calls s2)) (calls (snd (translateJSON E F args s2))) =
              drop (length (calls s1)) (calls (snd (translateJSON E F args s1))) \<and>
            fst (translateLocaleFile E F args s2) = fst (translateLocaleFile E F args s1) \<and>
            drop (length (calls s2)) (calls (snd (translateLocaleFile E F args s2))) =
              drop (length (calls s1)) (calls (snd (translateLocaleFile E F args s1)))"
      by (intro conjI frame_result [OF t eq] frame_calls [OF t eq] frame_result [OF j eq]
          frame_calls [OF j eq] frame_result [OF l eq] frame_calls [OF l eq])
  qed
  show ?thesis
    by (intro conjI same frame_again [OF t] frame_again [OF j] frame_again [OF l]
        frame_config [OF t] frame_config [OF j] frame_config [OF l] frame_config [OF a]
        frame_config [OF h] POST_config) (simp add: getTranslations_def)
qed

text \<open>A translation gives the same result after an unrelated call as before it.\<close>

theorem operations_repeatable_witness:
  "testConfig (snd (healthCheck test_env (mock_fetch True (JObj [(''es'', JStr ''Hola'')]))
                     configured_state)) = testConfig configured_state \<and>
   fst (translate test_env (mock_fetch True (JObj [(''es'', JStr ''Hola'')]))
          [(''text'', JStr ''Hello''), (''targetLanguages'', JArr [JStr ''es''])]
          (snd (healthCheck test_env (mock_fetch True (JObj [(''es'', JStr ''Hola'')]))
                  configured_state)))
     = Inr (JObj [(''es'', JStr ''Hola'')]) \<and>
   fst (translate test_env (mock_fetch True (JObj [(''es'', JStr ''Hola'')]))
          [(''text'', JStr ''Hello''), (''targetLanguages'', JArr [JStr ''es''])] configured_state)
     = Inr (JObj [(''es'', JStr ''Hola'')])"
proof -
  let ?F = "mock_fetch True (JObj [(''es'', JStr ''Hola'')])"
  let ?args = "[(''text'', JStr ''Hello''), (''targetLanguages'', JArr [JStr ''es''])]"
  let ?s2 = "snd (healthCheck test_env ?F configured_state)"
  have cfg: "testConfig ?s2 = testConfig configured_state"
    using operations_repeatable [of configured_state configured_state test_env ?F ?args]
    by simp
  have same: "fst (translate test_env ?F ?args ?s2) = fst (translate test_env ?F ?args configured_state)"
    using operations_repeatable [of ?s2 configured_state test_env ?F ?args] cfg
    by simp
  have one: "fst (translate test_env ?F ?args configured_state) = Inr (JObj [(''es'', JStr ''Hola'')])"
    by (simp add: translate_def Let_def opt_length_def nullish_def apiRequest_def
        configured_key do_fetch_def mock_fetch_def)
  from cfg same one show ?thesis by simp
qed

end
